theory Spec2Isabelle
  imports Complex_Main
begin

section \<open>Simple\_Speak: the synthesis handler (tts.py) and the interactive loop (main.py)\<close>

text \<open>
  The program is a thin layer of decisions around calls into an external speech engine, the
  file system, the JSON parser, the terminal and the audio player. Those collaborators are
  opaque to the code, so the model takes them as a \<open>world\<close>: a record with one function per
  external operation, which says what that operation answers. Every theorem is stated for an
  arbitrary world, hence for every behaviour of the collaborators.

  A Python call either returns a value or raises; it is modelled by a value of \<open>exn + 'a\<close>
  (\<open>Inl\<close> is the raised exception). What the code does to the outside (external calls with
  their answers, log records, printed lines) is collected in a list of events, in program
  order; "create\_speaker is called exactly once" is a statement about that list.
\<close>

subsection \<open>Exceptions\<close>

text \<open>
  The handlers of the source distinguish four classes: \<open>except Exception\<close> (tts.py, main.py),
  \<open>except OSError\<close> (ensure\_cache\_dir), \<open>except json.JSONDecodeError\<close> (load\_config) and
  \<open>except KeyboardInterrupt\<close> (main). OSError and JSONDecodeError are subclasses of
  Exception; KeyboardInterrupt derives from BaseException only, so \<open>except Exception\<close> does
  not catch it. SystemExit stands for the other classes that derive from BaseException only
  (SystemExit, GeneratorExit): no handler of the source catches them. The string is the
  exception's message (\<open>str(e)\<close>, which the log lines print).
\<close>

datatype exn =
    Exception string
  | OSError string
  | JSONDecodeError string
  | KeyboardInterrupt
  | SystemExit

fun is_Exception :: "exn \<Rightarrow> bool" where
  "is_Exception KeyboardInterrupt = False"
| "is_Exception SystemExit = False"
| "is_Exception (Exception m) = True"
| "is_Exception (OSError m) = True"
| "is_Exception (JSONDecodeError m) = True"

fun is_OSError :: "exn \<Rightarrow> bool" where
  "is_OSError (OSError m) = True"
| "is_OSError (Exception m) = False"
| "is_OSError (JSONDecodeError m) = False"
| "is_OSError KeyboardInterrupt = False"
| "is_OSError SystemExit = False"

fun is_JSONDecodeError :: "exn \<Rightarrow> bool" where
  "is_JSONDecodeError (JSONDecodeError m) = True"
| "is_JSONDecodeError (Exception m) = False"
| "is_JSONDecodeError (OSError m) = False"
| "is_JSONDecodeError KeyboardInterrupt = False"
| "is_JSONDecodeError SystemExit = False"

fun is_KeyboardInterrupt :: "exn \<Rightarrow> bool" where
  "is_KeyboardInterrupt KeyboardInterrupt = True"
| "is_KeyboardInterrupt (Exception m) = False"
| "is_KeyboardInterrupt (OSError m) = False"
| "is_KeyboardInterrupt (JSONDecodeError m) = False"
| "is_KeyboardInterrupt SystemExit = False"

subsection \<open>Values of the external engine\<close>

text \<open>
  Speaker profiles, audio results, model configurations and the interface object are opaque
  handles of the engine; a number identifies each. The arguments of \<open>TTSHandler()\<close> are
  members of enumerations of the engine, kept by name.
\<close>

datatype speaker = Speaker nat
datatype audio = Audio nat
datatype model_config = ModelConfig nat
datatype engine_interface = Interface nat

datatype init_args = InitArgs (model_size: string) (backend: string) (quantization: string)

text \<open>The sampler parameters of tts.py, lines 57 to 64 (the decimal literals as fractions).\<close>

datatype sampler_config = SamplerConfig
  (temperature: rat) (repetition_penalty: rat) (repetition_range: nat)
  (top_k: nat) (top_p: rat) (min_p: rat)

definition recommended_sampler_config :: sampler_config where
  "recommended_sampler_config = SamplerConfig (4 / 10) (11 / 10) 64 40 (9 / 10) (5 / 100)"

datatype generation_type = CHUNKED

record generation_config =
  gc_text :: string
  gc_generation_type :: generation_type
  gc_speaker :: speaker
  gc_sampler_config :: sampler_config

subsection \<open>JSON documents and dates\<close>

text \<open>What \<open>json.load\<close> returns: None, a bool, an int, a float, a str, a list or a dict.\<close>

datatype json =
    JNull
  | JBool bool
  | JInt int
  | JFloat rat
  | JString string
  | JArray "json list"
  | JObject "(string \<times> json) list"

record datetime =
  year :: nat
  month :: nat
  day :: nat
  hour :: nat
  minute :: nat
  second :: nat

subsection \<open>Events\<close>

datatype level = INFO | WARNING | ERROR | CRITICAL

text \<open>
  \<open>speaker_source\<close> in \<open>speak\<close> is a string built from one of five templates; the model
  keeps the template and its argument.
\<close>

datatype speaker_source =
    Unknown
  | ClonedFile string
  | ProvidedID string
  | ClassDefaultID string
  | FailedLoad string

text \<open>One constructor per logging call of the source, with the values its message prints.\<close>

datatype log_msg =
    InitStart init_args
  | InitMayTakeTime
  | InitOk
  | InitFailed exn
  | UsingSampler sampler_config
  | InterfaceNotInitialized
  | SamplerNotSet
  | EmptyText
  | NoOutputFile
  | CreatedOutputDir string
  | ErrorCreatingDir string exn
  | AttemptClone string
  | CloneOk
  | CloneError string exn
  | AttemptProvidedId string
  | AttemptClassDefault string
  | LoadedSpeaker speaker_source
  | LoadFailed string exn
  | DefaultVoiceFailed string
  | NoSpeakerId
  | NoSpeakerProfile speaker_source
  | Generating speaker_source string
  | Saved string
  | UnexpectedError exn
  | CreatedCacheDir string
  | ErrorCacheDir string exn
  | VoiceFileNotFound json
  | ConfigDecodeError
  | ConfigLoadError exn
  | ConfigNotFound
  | Playing string
  | PlaybackFinished
  | PlayError string exn
  | AudioNotFound string
  | Synthesizing string
  | LoopError exn

text \<open>One constructor per \<open>print\<close> call of main.py.\<close>

datatype print_msg =
    CouldNotPlay string
  | AudioFileNotFound string
  | CacheDirFailed
  | Initializing
  | FatalInit exn
  | CheckInstallation
  | FatalInterface
  | Banner
  | TypeQuit
  | PleaseEnterText
  | SorryFailed
  | Exiting
  | UnexpectedCheckLogs

text \<open>An external call is recorded with its arguments and with what it answered.\<close>

datatype event =
    PathExists string bool
  | FdExists int "exn + bool"
  | MakeDirs string "exn + unit"
  | AutoConfig init_args "exn + model_config"
  | NewInterface model_config "exn + engine_interface"
  | CreateSpeaker string "exn + speaker option"
  | LoadDefaultSpeaker string "exn + speaker option"
  | Generate generation_config "exn + audio"
  | Save audio string "exn + unit"
  | JsonLoad string "exn + json"
  | PlaySound string "exn + unit"
  | Input "exn + string"
  | Now datetime
  | Log level log_msg
  | Print print_msg

subsection \<open>The world\<close>

text \<open>
  \<open>os_path_exists\<close> returns a bool and never raises on a string; \<open>os_fd_exists\<close> is
  \<open>os.path.exists\<close> on an int, which Python reads as a file descriptor and which can raise
  (OverflowError). \<open>create_speaker\<close> and
  \<open>load_default_speaker\<close> return a Python object, which may be None: \<open>speaker option\<close>.
  \<open>json_load\<close> stands for \<open>open(path)\<close> followed by \<open>json.load\<close>. \<open>input_line\<close> is what
  \<open>input(...)\<close> answers, \<open>now\<close> what \<open>datetime.datetime.now()\<close> answers. A world fixes the
  answers for one call of the function under study; the loop of main.py takes one world per
  iteration.
\<close>

record world =
  os_path_exists :: "string \<Rightarrow> bool"
  os_fd_exists :: "int \<Rightarrow> exn + bool"
  os_makedirs :: "string \<Rightarrow> exn + unit"
  auto_config :: "init_args \<Rightarrow> exn + model_config"
  new_interface :: "model_config \<Rightarrow> exn + engine_interface"
  create_speaker :: "engine_interface \<Rightarrow> string \<Rightarrow> exn + speaker option"
  load_default_speaker :: "engine_interface \<Rightarrow> string \<Rightarrow> exn + speaker option"
  generate :: "engine_interface \<Rightarrow> generation_config \<Rightarrow> exn + audio"
  save :: "audio \<Rightarrow> string \<Rightarrow> exn + unit"
  json_load :: "string \<Rightarrow> exn + json"
  playsound :: "string \<Rightarrow> exn + unit"
  input_line :: "exn + string"
  now :: datetime

subsection \<open>Sequencing, raising and catching\<close>

text \<open>
  A computation is its outcome (a value, or the exception that leaves it) and the events it
  produced. \<open>bnd\<close> is sequencing: an exception skips the rest. \<open>try_except m cls h\<close> is
  \<open>try: m / except cls as e: h e\<close>: an exception of another class passes through.
\<close>

type_synonym 'a prog = "(exn + 'a) \<times> event list"

definition ret :: "'a \<Rightarrow> 'a prog" where
  "ret a = (Inr a, [])"

definition emit :: "event \<Rightarrow> unit prog" where
  "emit e = (Inr (), [e])"

definition logging :: "level \<Rightarrow> log_msg \<Rightarrow> unit prog" where
  "logging l m = emit (Log l m)"

definition print :: "print_msg \<Rightarrow> unit prog" where
  "print m = emit (Print m)"

definition call :: "(exn + 'a) \<Rightarrow> ((exn + 'a) \<Rightarrow> event) \<Rightarrow> 'a prog" where
  "call r ev = (r, [ev r])"

definition bnd :: "'a prog \<Rightarrow> ('a \<Rightarrow> 'b prog) \<Rightarrow> 'b prog" where
  "bnd m f =
     (case m of
        (Inl e, es) \<Rightarrow> (Inl e, es)
      | (Inr a, es) \<Rightarrow> (case f a of (r, es') \<Rightarrow> (r, es @ es')))"

definition thn :: "unit prog \<Rightarrow> 'b prog \<Rightarrow> 'b prog" where
  "thn m k = bnd m (\<lambda>_. k)"

definition try_except :: "'a prog \<Rightarrow> (exn \<Rightarrow> bool) \<Rightarrow> (exn \<Rightarrow> 'a prog) \<Rightarrow> 'a prog" where
  "try_except m cls h =
     (case m of
        (Inl e, es) \<Rightarrow>
          (if cls e then (case h e of (r, es') \<Rightarrow> (r, es @ es')) else (Inl e, es))
      | (Inr a, es) \<Rightarrow> (Inr a, es))"

text \<open>
  \<open>try_except2 m c1 h1 c2 h2\<close> is a \<open>try\<close> with two \<open>except\<close> clauses: the first clause whose
  class matches handles the exception, and no clause handles what a handler raises.
\<close>

definition try_except2 ::
  "'a prog \<Rightarrow> (exn \<Rightarrow> bool) \<Rightarrow> (exn \<Rightarrow> 'a prog) \<Rightarrow> (exn \<Rightarrow> bool) \<Rightarrow> (exn \<Rightarrow> 'a prog) \<Rightarrow> 'a prog"
  where
  "try_except2 m c1 h1 c2 h2 =
     (case m of
        (Inl e, es) \<Rightarrow>
          (if c1 e then (case h1 e of (r, es') \<Rightarrow> (r, es @ es'))
           else if c2 e then (case h2 e of (r, es') \<Rightarrow> (r, es @ es'))
           else (Inl e, es))
      | (Inr a, es) \<Rightarrow> (Inr a, es))"

text \<open>An operation of the interpreter itself (no event): its value, or the exception.\<close>

definition lift :: "exn + 'a \<Rightarrow> 'a prog" where
  "lift r = (r, [])"

definition exists_c :: "world \<Rightarrow> string \<Rightarrow> bool prog" where
  "exists_c w p = (Inr (os_path_exists w p), [PathExists p (os_path_exists w p)])"

subsection \<open>Paths (posixpath)\<close>

text \<open>
  \<open>os.path.dirname\<close>, \<open>os.path.basename\<close> and \<open>os.path.join\<close> as posixpath defines them:
  \<open>i = p.rfind('/') + 1\<close>; the base name is \<open>p[i:]\<close>; the directory is \<open>p[:i]\<close>, with its
  trailing slashes removed unless it consists of slashes only.
\<close>

definition basename :: "string \<Rightarrow> string" where
  "basename p = rev (takeWhile (\<lambda>c. c \<noteq> CHR ''/'') (rev p))"

definition rstrip_slash :: "string \<Rightarrow> string" where
  "rstrip_slash s = rev (dropWhile (\<lambda>c. c = CHR ''/'') (rev s))"

definition dirname :: "string \<Rightarrow> string" where
  "dirname p =
     (let head = rev (dropWhile (\<lambda>c. c \<noteq> CHR ''/'') (rev p))
      in if head \<noteq> [] \<and> \<not> list_all (\<lambda>c. c = CHR ''/'') head then rstrip_slash head else head)"

definition os_path_join :: "string \<Rightarrow> string \<Rightarrow> string" where
  "os_path_join a b =
     (if b \<noteq> [] \<and> hd b = CHR ''/'' then b
      else if a = [] \<or> last a = CHR ''/'' then a @ b
      else a @ ''/'' @ b)"

subsection \<open>tts.py: TTSHandler\<close>

record TTSHandler =
  config :: "model_config option"
  interface :: "engine_interface option"
  sampler_config :: "sampler_config option"

definition DEFAULT_VOICE :: string where
  "DEFAULT_VOICE = ''EN-FEMALE-1-NEUTRAL''"

text \<open>
  \<open>TTSHandler.__init__\<close> (lines 25 to 67). The attribute \<open>config\<close> is assigned only when
  \<open>auto_config\<close> returned; the model gives it None before that.
\<close>

definition TTSHandler_init :: "world \<Rightarrow> init_args \<Rightarrow> TTSHandler prog" where
  "TTSHandler_init w args =
     thn (logging INFO (InitStart args))
    (thn (logging INFO InitMayTakeTime)
    (bnd
       (try_except
          (bnd (call (auto_config w args) (AutoConfig args)) (\<lambda>cfg.
           bnd (call (new_interface w cfg) (NewInterface cfg)) (\<lambda>i.
           thn (logging INFO InitOk)
               (ret (Some i)))))
          is_Exception
          (\<lambda>e. thn (logging ERROR (InitFailed e)) (ret None)))
       (\<lambda>i. case i of
               Some ifc \<Rightarrow>
                 thn (logging INFO (UsingSampler recommended_sampler_config))
                     (ret \<lparr>config = (case auto_config w args of Inr cfg \<Rightarrow> Some cfg | Inl _ \<Rightarrow> None),
                           interface = Some ifc,
                           sampler_config = Some recommended_sampler_config\<rparr>)
             | None \<Rightarrow>
                 ret \<lparr>config = (case auto_config w args of Inr cfg \<Rightarrow> Some cfg | Inl _ \<Rightarrow> None),
                      interface = None,
                      sampler_config = None\<rparr>)))"

text \<open>
  Lines 110 to 117 of \<open>speak\<close>: the directory of the output file is created when it is
  missing. The result says whether \<open>speak\<close> goes on (the handler of line 115 returns False
  from \<open>speak\<close>).
\<close>

definition ensure_output_dir :: "world \<Rightarrow> string \<Rightarrow> bool prog" where
  "ensure_output_dir w output_file =
     try_except
       (let output_dir = dirname output_file in
        if output_dir \<noteq> [] then
          bnd (exists_c w output_dir) (\<lambda>there.
            if \<not> there then
              bnd (call (os_makedirs w output_dir) (MakeDirs output_dir)) (\<lambda>_.
              thn (logging INFO (CreatedOutputDir output_dir))
                  (ret True))
            else ret True)
        else ret True)
       is_Exception
       (\<lambda>e. thn (logging ERROR (ErrorCreatingDir output_file e)) (ret False))"

text \<open>
  Lines 124 to 134: the cloning step. \<open>if voice_file and os.path.exists(voice_file)\<close>: None
  and the empty string are false, and then the file system is not asked. The result is the
  pair of the variables \<open>speaker\<close> and \<open>speaker_source\<close> after the step.
\<close>

definition clone_step ::
  "world \<Rightarrow> engine_interface \<Rightarrow> string option \<Rightarrow> (speaker option \<times> speaker_source) prog" where
  "clone_step w ifc voice_file =
     (case voice_file of
        None \<Rightarrow> ret (None, Unknown)
      | Some f \<Rightarrow>
          if f = [] then ret (None, Unknown)
          else
            bnd (exists_c w f) (\<lambda>there.
              if there then
                thn (logging INFO (AttemptClone f))
                    (try_except
                       (bnd (call (create_speaker w ifc f) (CreateSpeaker f)) (\<lambda>sp.
                        thn (logging INFO CloneOk)
                            (ret (sp, ClonedFile (basename f)))))
                       is_Exception
                       (\<lambda>e. thn (logging ERROR (CloneError f e)) (ret (None, Unknown))))
              else ret (None, Unknown)))"

text \<open>
  Lines 137 to 164: when \<open>speaker is None\<close>, the identifier is the provided one if it is
  true (not None, not empty), else the class default, and it is loaded once.
\<close>

definition id_step ::
  "world \<Rightarrow> engine_interface \<Rightarrow> string option \<Rightarrow> speaker option \<times> speaker_source \<Rightarrow>
   (speaker option \<times> speaker_source) prog" where
  "id_step w ifc speaker_id st =
     (case fst st of
        Some sp \<Rightarrow> ret st
      | None \<Rightarrow>
          bnd (case speaker_id of
                 Some s \<Rightarrow>
                   if s \<noteq> [] then
                     thn (logging INFO (AttemptProvidedId s)) (ret (s, ProvidedID s))
                   else
                     thn (logging INFO (AttemptClassDefault DEFAULT_VOICE))
                         (ret (DEFAULT_VOICE, ClassDefaultID DEFAULT_VOICE))
               | None \<Rightarrow>
                   thn (logging INFO (AttemptClassDefault DEFAULT_VOICE))
                       (ret (DEFAULT_VOICE, ClassDefaultID DEFAULT_VOICE)))
            (\<lambda>(final_speaker_id_to_load, speaker_source).
               if final_speaker_id_to_load \<noteq> [] then
                 try_except
                   (bnd (call (load_default_speaker w ifc final_speaker_id_to_load)
                              (LoadDefaultSpeaker final_speaker_id_to_load)) (\<lambda>sp.
                    thn (logging INFO (LoadedSpeaker speaker_source))
                        (ret (sp, speaker_source))))
                   is_Exception
                   (\<lambda>e. thn (logging ERROR (LoadFailed final_speaker_id_to_load e))
                        (thn (if final_speaker_id_to_load = DEFAULT_VOICE
                              then logging CRITICAL (DefaultVoiceFailed DEFAULT_VOICE)
                              else ret ())
                             (ret (None, FailedLoad final_speaker_id_to_load))))
               else
                 thn (logging ERROR NoSpeakerId) (ret (None, speaker_source))))"

definition resolve_speaker ::
  "world \<Rightarrow> engine_interface \<Rightarrow> string option \<Rightarrow> string option \<Rightarrow>
   (speaker option \<times> speaker_source) prog" where
  "resolve_speaker w ifc speaker_id voice_file =
     bnd (clone_step w ifc voice_file) (id_step w ifc speaker_id)"

text \<open>Lines 168 to 187: the check of the speaker, generation and saving.\<close>

definition generate_and_save ::
  "world \<Rightarrow> engine_interface \<Rightarrow> sampler_config \<Rightarrow> string \<Rightarrow> string \<Rightarrow>
   speaker option \<times> speaker_source \<Rightarrow> bool prog" where
  "generate_and_save w ifc sc text output_file st =
     (case fst st of
        None \<Rightarrow> thn (logging ERROR (NoSpeakerProfile (snd st))) (ret False)
      | Some sp \<Rightarrow>
          (let generation_config =
                 \<lparr>gc_text = text, gc_generation_type = CHUNKED,
                  gc_speaker = sp, gc_sampler_config = sc\<rparr>
           in thn (logging INFO (Generating (snd st) (take 50 text)))
             (bnd (call (generate w ifc generation_config) (Generate generation_config))
                (\<lambda>output_audio.
              bnd (call (save w output_audio output_file) (Save output_audio output_file))
                (\<lambda>_.
              thn (logging INFO (Saved output_file))
                  (ret True))))))"

text \<open>
  Lines 123 to 191: the \<open>try\<close> block of \<open>speak\<close> with its handler, which turns an exception
  of class Exception into the result False.
\<close>

definition speak_try_block ::
  "world \<Rightarrow> engine_interface \<Rightarrow> sampler_config \<Rightarrow> string \<Rightarrow> string \<Rightarrow>
   string option \<Rightarrow> string option \<Rightarrow> bool prog" where
  "speak_try_block w ifc sc text output_file speaker_id voice_file =
     try_except
       (bnd (resolve_speaker w ifc speaker_id voice_file)
            (generate_and_save w ifc sc text output_file))
       is_Exception
       (\<lambda>e. thn (logging ERROR (UnexpectedError e)) (ret False))"

text \<open>\<open>TTSHandler.speak\<close> (lines 71 to 191).\<close>

definition speak ::
  "world \<Rightarrow> TTSHandler \<Rightarrow> string \<Rightarrow> string \<Rightarrow> string option \<Rightarrow> string option \<Rightarrow> bool prog" where
  "speak w self text output_file speaker_id voice_file =
     (case interface self of
        None \<Rightarrow> thn (logging ERROR InterfaceNotInitialized) (ret False)
      | Some ifc \<Rightarrow>
          (case sampler_config self of
             None \<Rightarrow> thn (logging ERROR SamplerNotSet) (ret False)
           | Some sc \<Rightarrow>
               if text = [] then thn (logging WARNING EmptyText) (ret False)
               else if output_file = [] then thn (logging ERROR NoOutputFile) (ret False)
               else
                 bnd (ensure_output_dir w output_file) (\<lambda>ok.
                   if \<not> ok then ret False
                   else speak_try_block w ifc sc text output_file speaker_id voice_file)))"

subsection \<open>main.py\<close>

definition CACHE_DIR :: string where
  "CACHE_DIR = ''cache''"

definition CONFIG_FILE :: string where
  "CONFIG_FILE = ''config.json''"

text \<open>\<open>ensure_cache_dir\<close> (lines 16 to 25): only an OSError is handled.\<close>

definition ensure_cache_dir :: "world \<Rightarrow> bool prog" where
  "ensure_cache_dir w =
     bnd (exists_c w CACHE_DIR) (\<lambda>there.
       if \<not> there then
         try_except
           (bnd (call (os_makedirs w CACHE_DIR) (MakeDirs CACHE_DIR)) (\<lambda>_.
            thn (logging INFO (CreatedCacheDir CACHE_DIR))
                (ret True)))
           is_OSError
           (\<lambda>e. thn (logging ERROR (ErrorCacheDir CACHE_DIR e)) (ret False))
       else ret True)"

text \<open>
  A Python dict with string keys, in insertion order. \<open>dict_set\<close> is \<open>d[k] = v\<close>,
  \<open>dict_contains\<close> is \<open>k in d\<close>, \<open>dict_index\<close> is \<open>d[k]\<close> (KeyError on a missing key) and
  \<open>dict_get\<close> is \<open>d.get(k)\<close>.
\<close>

type_synonym pydict = "(string \<times> json) list"

fun dict_set :: "pydict \<Rightarrow> string \<Rightarrow> json \<Rightarrow> pydict" where
  "dict_set [] k v = [(k, v)]"
| "dict_set ((k', v') # d) k v = (if k' = k then (k, v) # d else (k', v') # dict_set d k v)"

definition dict_contains :: "pydict \<Rightarrow> string \<Rightarrow> bool" where
  "dict_contains d k = (map_of d k \<noteq> None)"

definition dict_get :: "pydict \<Rightarrow> string \<Rightarrow> json" where
  "dict_get d k = (case map_of d k of None \<Rightarrow> JNull | Some v \<Rightarrow> v)"

definition dict_index :: "pydict \<Rightarrow> string \<Rightarrow> exn + json" where
  "dict_index d k = (case map_of d k of None \<Rightarrow> Inl (Exception ''KeyError'') | Some v \<Rightarrow> Inr v)"

text \<open>The truth value of a parsed JSON value in an \<open>if\<close>.\<close>

fun truthy :: "json \<Rightarrow> bool" where
  "truthy JNull = False"
| "truthy (JBool b) = b"
| "truthy (JInt n) = (n \<noteq> 0)"
| "truthy (JFloat r) = (r \<noteq> 0)"
| "truthy (JString s) = (s \<noteq> [])"
| "truthy (JArray xs) = (xs \<noteq> [])"
| "truthy (JObject d) = (d \<noteq> [])"

text \<open>
  \<open>os.path.exists(v)\<close> on a parsed JSON value: a str is a path; an int (a bool is an int) is
  a file descriptor; None, a float, a list and a dict make \<open>os.stat\<close> raise TypeError, which
  \<open>os.path.exists\<close> does not catch.
\<close>

fun exists_json :: "world \<Rightarrow> json \<Rightarrow> bool prog" where
  "exists_json w (JString s) = exists_c w s"
| "exists_json w (JInt n) = call (os_fd_exists w n) (FdExists n)"
| "exists_json w (JBool b) =
     call (os_fd_exists w (if b then 1 else 0)) (FdExists (if b then 1 else 0))"
| "exists_json w JNull = lift (Inl (Exception ''TypeError''))"
| "exists_json w (JFloat r) = lift (Inl (Exception ''TypeError''))"
| "exists_json w (JArray xs) = lift (Inl (Exception ''TypeError''))"
| "exists_json w (JObject d) = lift (Inl (Exception ''TypeError''))"

definition default_config :: pydict where
  "default_config = [(''speaker_id'', JNull), (''voice_file'', JNull)]"

text \<open>Lines 35 to 38 of \<open>load_config\<close>: a missing key is added with the value None.\<close>

definition ensure_keys :: "pydict \<Rightarrow> pydict" where
  "ensure_keys d =
     (let c1 = (if \<not> dict_contains d ''speaker_id'' then dict_set d ''speaker_id'' JNull else d)
      in if \<not> dict_contains c1 ''voice_file'' then dict_set c1 ''voice_file'' JNull else c1)"

text \<open>
  Lines 40 to 43: a \<open>voice_file\<close> that is a true value and does not exist is replaced by
  None, with a warning.
\<close>

definition check_voice_file :: "world \<Rightarrow> pydict \<Rightarrow> pydict prog" where
  "check_voice_file w cfg =
     bnd (lift (dict_index cfg ''voice_file'')) (\<lambda>v.
       if truthy v then
         bnd (exists_json w v) (\<lambda>there.
           if \<not> there then
             thn (logging WARNING (VoiceFileNotFound v))
                 (ret (dict_set cfg ''voice_file'' JNull))
           else ret cfg)
       else ret cfg)"

text \<open>
  Lines 35 to 43, on the parsed document. On a document that is not a dict the statements
  \<open>"speaker_id" not in config\<close>, \<open>config[...] = None\<close> and \<open>config["voice_file"]\<close> end in a
  TypeError for every value (an int, a float, a bool and None are not containers; a list
  and a str take neither a str index nor an item assignment by a str key), before any log
  record or external call.
\<close>

definition validate_config :: "world \<Rightarrow> json \<Rightarrow> pydict prog" where
  "validate_config w doc =
     (case doc of
        JObject d \<Rightarrow> check_voice_file w (ensure_keys d)
      | _ \<Rightarrow> lift (Inl (Exception ''TypeError'')))"

text \<open>\<open>load_config\<close> (lines 27 to 52).\<close>

definition load_config :: "world \<Rightarrow> pydict prog" where
  "load_config w =
     bnd (exists_c w CONFIG_FILE) (\<lambda>there.
       if there then
         try_except2
           (bnd (call (json_load w CONFIG_FILE) (JsonLoad CONFIG_FILE)) (validate_config w))
           is_JSONDecodeError
           (\<lambda>e. thn (logging ERROR ConfigDecodeError) (ret default_config))
           is_Exception
           (\<lambda>e. thn (logging ERROR (ConfigLoadError e)) (ret default_config))
       else
         thn (logging INFO ConfigNotFound) (ret default_config))"

text \<open>\<open>play_audio\<close> (lines 54 to 67).\<close>

definition play_audio :: "world \<Rightarrow> string \<Rightarrow> unit prog" where
  "play_audio w file_path =
     bnd (exists_c w file_path) (\<lambda>there.
       if there then
         try_except
           (thn (logging INFO (Playing file_path))
           (bnd (call (playsound w file_path) (PlaySound file_path)) (\<lambda>_.
            logging INFO PlaybackFinished)))
           is_Exception
           (\<lambda>e. thn (logging ERROR (PlayError file_path e))
                    (print (CouldNotPlay file_path)))
       else
         thn (logging ERROR (AudioNotFound file_path))
             (print (AudioFileNotFound file_path)))"

text \<open>
  \<open>str.lower\<close> on the letters that matter for the comparison with 'quit' and 'exit', the
  ASCII capitals, and \<open>strftime("%Y-%m-%d_%H-%M-%S")\<close> with zero-padded fields.
\<close>

definition lower_char :: "char \<Rightarrow> char" where
  "lower_char c =
     (case map_of (zip ''ABCDEFGHIJKLMNOPQRSTUVWXYZ'' ''abcdefghijklmnopqrstuvwxyz'') c of
        Some l \<Rightarrow> l
      | None \<Rightarrow> c)"

definition lower :: "string \<Rightarrow> string" where
  "lower s = map lower_char s"

definition digit_char :: "nat \<Rightarrow> char" where
  "digit_char n = ''0123456789'' ! (n mod 10)"

definition pad2 :: "nat \<Rightarrow> string" where
  "pad2 n = [digit_char (n div 10), digit_char n]"

definition pad4 :: "nat \<Rightarrow> string" where
  "pad4 n = [digit_char (n div 1000), digit_char (n div 100), digit_char (n div 10), digit_char n]"

definition strftime :: "datetime \<Rightarrow> string" where
  "strftime t =
     pad4 (year t) @ ''-'' @ pad2 (month t) @ ''-'' @ pad2 (day t) @ ''_'' @
     pad2 (hour t) @ ''-'' @ pad2 (minute t) @ ''-'' @ pad2 (second t)"

definition output_path_at :: "datetime \<Rightarrow> string" where
  "output_path_at t = os_path_join CACHE_DIR (strftime t @ ''.wav'')"

text \<open>
  One iteration of the \<open>while True\<close> loop of \<open>main\<close> (lines 97 to 131). The result says
  whether the loop goes on. \<open>speaker_id\<close> and \<open>voice_file\<close> are the values
  \<open>config.get("speaker_id")\<close> and \<open>config.get("voice_file")\<close>, None or a str as the signature
  of \<open>speak\<close> has them.
\<close>

datatype loop_ctl = Continue | Break

definition loop_iteration ::
  "world \<Rightarrow> TTSHandler \<Rightarrow> string option \<Rightarrow> string option \<Rightarrow> loop_ctl prog" where
  "loop_iteration w tts_handler speaker_id voice_file =
     try_except2
       (bnd (call (input_line w) Input) (\<lambda>text_input.
          if lower text_input \<in> set [''quit'', ''exit''] then ret Break
          else if text_input = [] then thn (print PleaseEnterText) (ret Continue)
          else
            thn (emit (Now (now w)))
           (let output_path = output_path_at (now w) in
            thn (logging INFO (Synthesizing text_input))
           (bnd (speak w tts_handler text_input output_path speaker_id voice_file) (\<lambda>success.
              if success then thn (play_audio w output_path) (ret Continue)
              else thn (print SorryFailed) (ret Continue))))))
       is_KeyboardInterrupt
       (\<lambda>e. thn (print Exiting) (ret Break))
       is_Exception
       (\<lambda>e. thn (logging ERROR (LoopError e))
           (thn (print UnexpectedCheckLogs) (ret Continue)))"

text \<open>
  The loop, on the worlds of its successive iterations. It may run forever (an exhausted
  standard input makes \<open>input\<close> raise EOFError in every iteration, which the loop logs and
  survives), so the model runs it on a finite list of iterations: the result says whether
  the loop has stopped within them (by \<open>break\<close>, or by an exception that no handler of
  the loop catches), with the events so far.
\<close>

fun main_loop ::
  "TTSHandler \<Rightarrow> string option \<Rightarrow> string option \<Rightarrow> world list \<Rightarrow> bool \<times> event list" where
  "main_loop tts_handler speaker_id voice_file [] = (False, [])"
| "main_loop tts_handler speaker_id voice_file (w # ws) =
     (case loop_iteration w tts_handler speaker_id voice_file of
        (Inr Break, es) \<Rightarrow> (True, es)
      | (Inr Continue, es) \<Rightarrow>
          (case main_loop tts_handler speaker_id voice_file ws of
             (stopped, es') \<Rightarrow> (stopped, es @ es'))
      | (Inl e, es) \<Rightarrow> (True, es))"

subsection \<open>Notions used in the statements\<close>

text \<open>Kinds of events, to count the calls of one external operation in a list of events.\<close>

definition is_CreateSpeaker :: "event \<Rightarrow> bool" where
  "is_CreateSpeaker e = (case e of CreateSpeaker _ _ \<Rightarrow> True | _ \<Rightarrow> False)"

definition is_LoadDefaultSpeaker :: "event \<Rightarrow> bool" where
  "is_LoadDefaultSpeaker e = (case e of LoadDefaultSpeaker _ _ \<Rightarrow> True | _ \<Rightarrow> False)"

definition is_Generate :: "event \<Rightarrow> bool" where
  "is_Generate e = (case e of Generate _ _ \<Rightarrow> True | _ \<Rightarrow> False)"

definition is_Save :: "event \<Rightarrow> bool" where
  "is_Save e = (case e of Save _ _ _ \<Rightarrow> True | _ \<Rightarrow> False)"

definition is_PlaySound :: "event \<Rightarrow> bool" where
  "is_PlaySound e = (case e of PlaySound _ _ \<Rightarrow> True | _ \<Rightarrow> False)"

definition engine_call :: "event \<Rightarrow> bool" where
  "engine_call e =
     (case e of CreateSpeaker _ _ \<Rightarrow> True | LoadDefaultSpeaker _ _ \<Rightarrow> True
      | Generate _ _ \<Rightarrow> True | Save _ _ _ \<Rightarrow> True | _ \<Rightarrow> False)"

text \<open>
  \<open>speak\<close> reaches its \<open>try\<close> block (line 123): the four checks of lines 95 to 107 pass and
  the directory of the output file is there or has been created.
\<close>

definition speak_ready :: "world \<Rightarrow> TTSHandler \<Rightarrow> string \<Rightarrow> string \<Rightarrow> bool" where
  "speak_ready w self text output_file =
     (interface self \<noteq> None \<and> sampler_config self \<noteq> None \<and> text \<noteq> [] \<and>
      output_file \<noteq> [] \<and> fst (ensure_output_dir w output_file) = Inr True)"

text \<open>
  The values of the variables \<open>final_speaker_id_to_load\<close> and \<open>speaker_source\<close> after lines
  138 to 147, and the record logged there.
\<close>

definition final_speaker_id_to_load :: "string option \<Rightarrow> string" where
  "final_speaker_id_to_load speaker_id =
     (case speaker_id of
        Some s \<Rightarrow> if s \<noteq> [] then s else DEFAULT_VOICE
      | None \<Rightarrow> DEFAULT_VOICE)"

definition source_by_id :: "string option \<Rightarrow> speaker_source" where
  "source_by_id speaker_id =
     (case speaker_id of
        Some s \<Rightarrow> if s \<noteq> [] then ProvidedID s else ClassDefaultID DEFAULT_VOICE
      | None \<Rightarrow> ClassDefaultID DEFAULT_VOICE)"

definition attempt_log :: "string option \<Rightarrow> event" where
  "attempt_log speaker_id =
     (case speaker_id of
        Some s \<Rightarrow> if s \<noteq> [] then Log INFO (AttemptProvidedId s)
                  else Log INFO (AttemptClassDefault DEFAULT_VOICE)
      | None \<Rightarrow> Log INFO (AttemptClassDefault DEFAULT_VOICE))"

text \<open>An engine call that yields no speaker profile: it raises an Exception or returns None.\<close>

definition no_profile :: "exn + speaker option \<Rightarrow> bool" where
  "no_profile r = (case r of Inl e \<Rightarrow> is_Exception e | Inr None \<Rightarrow> True | Inr (Some p) \<Rightarrow> False)"

subsection \<open>A world and a handler for the examples\<close>

text \<open>
  A world in which every external call succeeds: the voice sample, the cache directory and
  the configuration file exist, the user types hello.
\<close>

definition example_world :: world where
  "example_world =
     \<lparr>os_path_exists = (\<lambda>p. p \<in> set [''voice.wav'', ''cache'', ''config.json'']),
      os_fd_exists = (\<lambda>n. Inr False),
      os_makedirs = (\<lambda>p. Inr ()),
      auto_config = (\<lambda>a. Inr (ModelConfig 0)),
      new_interface = (\<lambda>c. Inr (Interface 0)),
      create_speaker = (\<lambda>i f. Inr (Some (Speaker 1))),
      load_default_speaker = (\<lambda>i s. Inr (Some (Speaker 2))),
      generate = (\<lambda>i g. Inr (Audio 7)),
      save = (\<lambda>a p. Inr ()),
      json_load = (\<lambda>p. Inr (JObject [(''voice_file'', JString ''missing.wav'')])),
      playsound = (\<lambda>p. Inr ()),
      input_line = Inr ''hello'',
      now = \<lparr>year = 2026, month = 11, day = 3, hour = 17, minute = 5, second = 9\<rparr>\<rparr>"

definition example_handler :: TTSHandler where
  "example_handler =
     \<lparr>config = Some (ModelConfig 0), interface = Some (Interface 0),
      sampler_config = Some recommended_sampler_config\<rparr>"

section \<open>Properties\<close>

subsection \<open>Outcome and events of the combinators\<close>

lemmas prog_defs = ret_def emit_def logging_def print_def call_def bnd_def thn_def
  try_except_def try_except2_def exists_c_def lift_def

lemmas is_defs = is_LoadDefaultSpeaker_def is_CreateSpeaker_def is_Generate_def is_Save_def
  is_PlaySound_def

lemma fst_ret: "fst (ret x) = Inr x"
  by (simp add: ret_def)

lemma snd_ret: "snd (ret x) = []"
  by (simp add: ret_def)

lemma thn_logging_ret: "thn (logging l m) (ret x) = (Inr x, [Log l m])"
  by (simp add: prog_defs)

lemma fst_bnd: "fst (bnd m f) = (case fst m of Inl e \<Rightarrow> Inl e | Inr a \<Rightarrow> fst (f a))"
  by (simp add: bnd_def split: prod.splits sum.splits)

lemma snd_bnd: "snd (bnd m f) = snd m @ (case fst m of Inl e \<Rightarrow> [] | Inr a \<Rightarrow> snd (f a))"
  by (simp add: bnd_def split: prod.splits sum.splits)

lemma fst_try_except:
  "fst (try_except m cls h) =
     (case fst m of Inl e \<Rightarrow> if cls e then fst (h e) else Inl e | Inr a \<Rightarrow> Inr a)"
  by (simp add: try_except_def split: prod.splits sum.splits)

lemma snd_try_except:
  "snd (try_except m cls h) =
     snd m @ (case fst m of Inl e \<Rightarrow> if cls e then snd (h e) else [] | Inr a \<Rightarrow> [])"
  by (simp add: try_except_def split: prod.splits sum.splits)

subsection \<open>The steps of speak, case by case\<close>

lemma ensure_output_dir_cases:
  "ensure_output_dir w output_file =
    (if dirname output_file = [] then (Inr True, [])
     else if os_path_exists w (dirname output_file)
       then (Inr True, [PathExists (dirname output_file) True])
     else (case os_makedirs w (dirname output_file) of
             Inr u \<Rightarrow> (Inr True, [PathExists (dirname output_file) False,
                 MakeDirs (dirname output_file) (Inr u),
                 Log INFO (CreatedOutputDir (dirname output_file))])
           | Inl e \<Rightarrow>
               if is_Exception e then (Inr False, [PathExists (dirname output_file) False,
                 MakeDirs (dirname output_file) (Inl e),
                 Log ERROR (ErrorCreatingDir output_file e)])
               else (Inl e, [PathExists (dirname output_file) False,
                 MakeDirs (dirname output_file) (Inl e)])))"
  by (simp add: ensure_output_dir_def prog_defs Let_def split: sum.splits)

lemma clone_step_cases:
  "clone_step w ifc vf =
    (case vf of None \<Rightarrow> (Inr (None, Unknown), [])
     | Some f \<Rightarrow>
        if f = [] then (Inr (None, Unknown), [])
        else if \<not> os_path_exists w f then (Inr (None, Unknown), [PathExists f False])
        else (case create_speaker w ifc f of
                Inr sp \<Rightarrow> (Inr (sp, ClonedFile (basename f)),
                   [PathExists f True, Log INFO (AttemptClone f), CreateSpeaker f (Inr sp),
                    Log INFO CloneOk])
              | Inl e \<Rightarrow>
                  if is_Exception e then (Inr (None, Unknown),
                   [PathExists f True, Log INFO (AttemptClone f), CreateSpeaker f (Inl e),
                    Log ERROR (CloneError f e)])
                  else (Inl e,
                   [PathExists f True, Log INFO (AttemptClone f), CreateSpeaker f (Inl e)])))"
  by (simp add: clone_step_def prog_defs split: option.splits sum.splits)

lemma final_speaker_id_nonempty: "final_speaker_id_to_load sid \<noteq> []"
  by (simp add: final_speaker_id_to_load_def DEFAULT_VOICE_def split: option.splits)

lemma id_step_cases:
  "id_step w ifc sid st =
    (case fst st of Some sp \<Rightarrow> (Inr st, [])
     | None \<Rightarrow>
       (case load_default_speaker w ifc (final_speaker_id_to_load sid) of
          Inr sp \<Rightarrow> (Inr (sp, source_by_id sid),
             [attempt_log sid, LoadDefaultSpeaker (final_speaker_id_to_load sid) (Inr sp),
              Log INFO (LoadedSpeaker (source_by_id sid))])
        | Inl e \<Rightarrow>
            if is_Exception e then (Inr (None, FailedLoad (final_speaker_id_to_load sid)),
               [attempt_log sid, LoadDefaultSpeaker (final_speaker_id_to_load sid) (Inl e),
                Log ERROR (LoadFailed (final_speaker_id_to_load sid) e)]
               @ (if final_speaker_id_to_load sid = DEFAULT_VOICE
                  then [Log CRITICAL (DefaultVoiceFailed DEFAULT_VOICE)] else []))
            else (Inl e,
               [attempt_log sid, LoadDefaultSpeaker (final_speaker_id_to_load sid) (Inl e)])))"
  by (simp add: id_step_def prog_defs final_speaker_id_to_load_def source_by_id_def
      attempt_log_def DEFAULT_VOICE_def split: option.splits sum.splits)

lemma generate_and_save_cases:
  "generate_and_save w ifc sc text output_file st =
    (case fst st of
       None \<Rightarrow> (Inr False, [Log ERROR (NoSpeakerProfile (snd st))])
     | Some sp \<Rightarrow>
        (let gc = \<lparr>gc_text = text, gc_generation_type = CHUNKED, gc_speaker = sp,
                   gc_sampler_config = sc\<rparr>
         in case generate w ifc gc of
              Inl e \<Rightarrow> (Inl e, [Log INFO (Generating (snd st) (take 50 text)), Generate gc (Inl e)])
            | Inr a \<Rightarrow>
               (case save w a output_file of
                  Inl e \<Rightarrow> (Inl e, [Log INFO (Generating (snd st) (take 50 text)),
                     Generate gc (Inr a), Save a output_file (Inl e)])
                | Inr u \<Rightarrow> (Inr True, [Log INFO (Generating (snd st) (take 50 text)),
                     Generate gc (Inr a), Save a output_file (Inr u),
                     Log INFO (Saved output_file)]))))"
  by (simp add: generate_and_save_def prog_defs Let_def split: option.splits sum.splits)

subsection \<open>Outcome and events of speak, from those of its steps\<close>

lemma resolve_fst:
  "fst (resolve_speaker w ifc sid vf) =
     (case fst (clone_step w ifc vf) of Inl e \<Rightarrow> Inl e | Inr st \<Rightarrow> fst (id_step w ifc sid st))"
  by (simp add: resolve_speaker_def fst_bnd)

lemma resolve_snd:
  "snd (resolve_speaker w ifc sid vf) =
     snd (clone_step w ifc vf) @
     (case fst (clone_step w ifc vf) of Inl e \<Rightarrow> [] | Inr st \<Rightarrow> snd (id_step w ifc sid st))"
  by (simp add: resolve_speaker_def snd_bnd)

lemma resolve_speaker_no_Exception:
  "fst (resolve_speaker w ifc sid vf) = Inl e \<Longrightarrow> \<not> is_Exception e"
  by (simp add: resolve_fst clone_step_cases id_step_cases
      split: option.splits sum.splits if_splits)

lemma try_block_fst:
  "fst (speak_try_block w ifc sc text out sid vf) =
    (case fst (resolve_speaker w ifc sid vf) of
       Inl e \<Rightarrow> Inl e
     | Inr st \<Rightarrow>
        (case fst (generate_and_save w ifc sc text out st) of
           Inl e \<Rightarrow> if is_Exception e then Inr False else Inl e
         | Inr b \<Rightarrow> Inr b))"
  using resolve_speaker_no_Exception[of w ifc sid vf]
  by (simp add: speak_try_block_def fst_try_except fst_bnd thn_logging_ret split: sum.splits)

lemma try_block_snd:
  "snd (speak_try_block w ifc sc text out sid vf) =
    snd (resolve_speaker w ifc sid vf) @
    (case fst (resolve_speaker w ifc sid vf) of
       Inl e \<Rightarrow> []
     | Inr st \<Rightarrow>
        snd (generate_and_save w ifc sc text out st) @
        (case fst (generate_and_save w ifc sc text out st) of
           Inl e \<Rightarrow> if is_Exception e then [Log ERROR (UnexpectedError e)] else []
         | Inr b \<Rightarrow> []))"
  using resolve_speaker_no_Exception[of w ifc sid vf]
  by (simp add: speak_try_block_def snd_try_except fst_bnd snd_bnd thn_logging_ret
      split: sum.splits)

lemma speak_fst:
  "fst (speak w self text out sid vf) =
    (case interface self of None \<Rightarrow> Inr False
     | Some ifc \<Rightarrow>
        (case sampler_config self of None \<Rightarrow> Inr False
         | Some sc \<Rightarrow>
            if text = [] \<or> out = [] then Inr False
            else (case fst (ensure_output_dir w out) of
                    Inl e \<Rightarrow> Inl e
                  | Inr ok \<Rightarrow> if ok then fst (speak_try_block w ifc sc text out sid vf)
                             else Inr False)))"
  by (simp add: speak_def fst_bnd thn_logging_ret fst_ret split: option.splits sum.splits)

lemma speak_snd:
  "snd (speak w self text out sid vf) =
    (case interface self of None \<Rightarrow> [Log ERROR InterfaceNotInitialized]
     | Some ifc \<Rightarrow>
        (case sampler_config self of None \<Rightarrow> [Log ERROR SamplerNotSet]
         | Some sc \<Rightarrow>
            if text = [] then [Log WARNING EmptyText]
            else if out = [] then [Log ERROR NoOutputFile]
            else snd (ensure_output_dir w out) @
                 (case fst (ensure_output_dir w out) of
                    Inl e \<Rightarrow> []
                  | Inr ok \<Rightarrow> if ok then snd (speak_try_block w ifc sc text out sid vf)
                             else [])))"
  by (simp add: speak_def snd_bnd thn_logging_ret snd_ret split: option.splits sum.splits)

lemma speak_when_ready:
  assumes "speak_ready w self text out" "interface self = Some ifc" "sampler_config self = Some sc"
  shows "speak w self text out sid vf =
     (fst (speak_try_block w ifc sc text out sid vf),
      snd (ensure_output_dir w out) @ snd (speak_try_block w ifc sc text out sid vf))"
  using assms by (simp add: speak_ready_def prod_eq_iff speak_fst speak_snd)

lemma ensure_no_engine_call: "filter engine_call (snd (ensure_output_dir w out)) = []"
  by (simp add: ensure_output_dir_cases engine_call_def split: sum.splits)

lemma speak_not_ready:
  assumes "\<not> speak_ready w self text out"
  shows "filter engine_call (snd (speak w self text out sid vf)) = []"
    and "fst (speak w self text out sid vf) \<noteq> Inr True"
  using assms
  by (auto simp: speak_ready_def speak_fst speak_snd ensure_no_engine_call engine_call_def
      split: option.splits sum.splits)

lemma speak_engine_event_ready:
  assumes "e \<in> set (snd (speak w self text out sid vf))" "engine_call e"
  shows "speak_ready w self text out"
proof (rule ccontr)
  assume "\<not> speak_ready w self text out"
  then have "filter engine_call (snd (speak w self text out sid vf)) = []"
    by (rule speak_not_ready)
  with assms show False
    by (auto simp: filter_empty_conv)
qed

lemma no_load_in_ensure: "LoadDefaultSpeaker i r \<notin> set (snd (ensure_output_dir w out))"
  by (simp add: ensure_output_dir_cases split: sum.splits)

lemma no_load_in_clone: "LoadDefaultSpeaker i r \<notin> set (snd (clone_step w ifc vf))"
  by (simp add: clone_step_cases split: option.splits sum.splits)

lemma no_load_in_gen:
  "LoadDefaultSpeaker i r \<notin> set (snd (generate_and_save w ifc sc text out st))"
  by (simp add: generate_and_save_cases Let_def split: option.splits sum.splits)

lemma load_in_id_step:
  assumes "LoadDefaultSpeaker i r \<in> set (snd (id_step w ifc sid st))"
  shows "fst st = None \<and> i = final_speaker_id_to_load sid \<and>
         r = load_default_speaker w ifc (final_speaker_id_to_load sid)"
  using assms
  by (auto simp: id_step_cases attempt_log_def split: option.splits sum.splits if_splits)

lemma try_block_load_inv:
  assumes "LoadDefaultSpeaker i r \<in> set (snd (speak_try_block w ifc sc text out sid vf))"
  obtains src where "fst (clone_step w ifc vf) = Inr (None, src)"
    "i = final_speaker_id_to_load sid"
    "r = load_default_speaker w ifc (final_speaker_id_to_load sid)"
proof -
  from assms have "LoadDefaultSpeaker i r \<in> set (snd (resolve_speaker w ifc sid vf))"
    by (auto simp: try_block_snd no_load_in_gen split: sum.splits if_splits)
  then obtain st where st: "fst (clone_step w ifc vf) = Inr st"
      and "LoadDefaultSpeaker i r \<in> set (snd (id_step w ifc sid st))"
    by (cases "fst (clone_step w ifc vf)") (auto simp: resolve_snd no_load_in_clone)
  from load_in_id_step[OF this(2)] st show ?thesis
    by (cases st) (auto intro: that)
qed

lemma ensure_filters:
  "filter is_LoadDefaultSpeaker (snd (ensure_output_dir w out)) = []"
  "filter is_CreateSpeaker (snd (ensure_output_dir w out)) = []"
  "filter is_Generate (snd (ensure_output_dir w out)) = []"
  "filter is_Save (snd (ensure_output_dir w out)) = []"
  by (simp_all add: ensure_output_dir_cases is_defs split: sum.splits)

lemma clone_filters:
  "filter is_LoadDefaultSpeaker (snd (clone_step w ifc vf)) = []"
  "filter is_Generate (snd (clone_step w ifc vf)) = []"
  "filter is_Save (snd (clone_step w ifc vf)) = []"
  by (simp_all add: clone_step_cases is_defs split: option.splits sum.splits)

lemma resolve_cloned:
  assumes "f \<noteq> []" "os_path_exists w f" "create_speaker w ifc f = Inr (Some p)"
  shows "resolve_speaker w ifc sid (Some f) =
     (Inr (Some p, ClonedFile (basename f)),
      [PathExists f True, Log INFO (AttemptClone f), CreateSpeaker f (Inr (Some p)),
       Log INFO CloneOk])"
  using assms by (simp add: resolve_speaker_def clone_step_cases id_step_cases bnd_def)

subsection \<open>Speaker resolution\<close>

text \<open>
  C1. When \<open>voice_file\<close> names an existing file and \<open>create_speaker\<close> returns a profile \<open>p\<close>
  for it, a call of \<open>speak\<close> never calls \<open>load_default_speaker\<close>, every generation it
  starts uses \<open>p\<close>, and the speaker source it reports is the cloned file. When the call
  reaches the resolution, \<open>create_speaker\<close> has been called and generation is started with
  \<open>p\<close>.
\<close>

theorem speak_valid_voice_file_is_cloned:
  assumes "interface self = Some ifc" "voice_file = Some f" "f \<noteq> []" "os_path_exists w f"
    and "create_speaker w ifc f = Inr (Some p)"
  shows "filter is_LoadDefaultSpeaker (snd (speak w self text out sid voice_file)) = []
     \<and> (\<forall>gc r. Generate gc r \<in> set (snd (speak w self text out sid voice_file))
            \<longrightarrow> gc_speaker gc = p)
     \<and> (\<forall>l s t. Log l (Generating s t) \<in> set (snd (speak w self text out sid voice_file))
            \<longrightarrow> s = ClonedFile (basename f))
     \<and> (speak_ready w self text out \<longrightarrow>
          CreateSpeaker f (Inr (Some p)) \<in> set (snd (speak w self text out sid voice_file)) \<and>
          (\<exists>gc r. Generate gc r \<in> set (snd (speak w self text out sid voice_file))))"
  using assms
  by (auto simp: speak_ready_def speak_snd try_block_snd resolve_cloned ensure_output_dir_cases
      generate_and_save_cases Let_def is_defs
      split: option.splits sum.splits if_splits)

theorem speak_valid_voice_file_is_cloned_witness:
  "filter is_LoadDefaultSpeaker
     (snd (speak example_world example_handler ''hi'' ''cache/a.wav'' (Some ''EN-MALE'')
             (Some ''voice.wav''))) = []
   \<and> CreateSpeaker ''voice.wav'' (Inr (Some (Speaker 1)))
       \<in> set (snd (speak example_world example_handler ''hi'' ''cache/a.wav'' (Some ''EN-MALE'')
                   (Some ''voice.wav'')))
   \<and> speak_ready example_world example_handler ''hi'' ''cache/a.wav''"
proof -
  have r: "speak_ready example_world example_handler ''hi'' ''cache/a.wav''"
    by (simp add: speak_ready_def example_world_def example_handler_def
        ensure_output_dir_cases dirname_def rstrip_slash_def)
  show ?thesis
    using r speak_valid_voice_file_is_cloned[of example_handler "Interface 0"
        "Some ''voice.wav''" "''voice.wav''" example_world "Speaker 1" "''hi''" "''cache/a.wav''"
        "Some ''EN-MALE''"]
    by (simp add: example_world_def example_handler_def)
qed

text \<open>
  C2. When a call of \<open>speak\<close> calls \<open>load_default_speaker\<close> and that call raises an
  Exception, \<open>speak\<close> returns False, this was the only call of \<open>load_default_speaker\<close> (no
  second identifier is tried), and nothing is generated or saved.
\<close>

theorem speak_load_failure_is_final:
  assumes "LoadDefaultSpeaker i (Inl e) \<in> set (snd (speak w self text out sid vf))"
    and "is_Exception e"
  shows "fst (speak w self text out sid vf) = Inr False
     \<and> filter is_LoadDefaultSpeaker (snd (speak w self text out sid vf))
         = [LoadDefaultSpeaker i (Inl e)]
     \<and> i = final_speaker_id_to_load sid
     \<and> filter is_Generate (snd (speak w self text out sid vf)) = []
     \<and> filter is_Save (snd (speak w self text out sid vf)) = []"
proof -
  have ready: "speak_ready w self text out"
    using assms(1) by (rule speak_engine_event_ready) (simp add: engine_call_def)
  then obtain ifc sc where h: "interface self = Some ifc" "sampler_config self = Some sc"
    by (auto simp: speak_ready_def)
  note sp = speak_when_ready[OF ready h, of sid vf]
  from assms(1) have
    "LoadDefaultSpeaker i (Inl e) \<in> set (snd (speak_try_block w ifc sc text out sid vf))"
    by (simp add: sp no_load_in_ensure)
  then obtain src where c: "fst (clone_step w ifc vf) = Inr (None, src)"
      and i: "i = final_speaker_id_to_load sid"
      and l: "load_default_speaker w ifc (final_speaker_id_to_load sid) = Inl e"
    by (rule try_block_load_inv) simp
  show ?thesis
    using c i l assms(2) ensure_filters[of w out] clone_filters[of w ifc vf]
    by (simp add: sp try_block_fst try_block_snd resolve_fst resolve_snd id_step_cases
        generate_and_save_cases is_defs attempt_log_def split: option.splits)
qed

theorem speak_load_failure_is_final_witness:
  "LoadDefaultSpeaker ''EN-MALE'' (Inl (Exception ''unknown speaker''))
     \<in> set (snd (speak (example_world\<lparr>load_default_speaker :=
                (\<lambda>i s. Inl (Exception ''unknown speaker''))\<rparr>)
              example_handler ''hi'' ''cache/a.wav'' (Some ''EN-MALE'') None))
   \<and> fst (speak (example_world\<lparr>load_default_speaker :=
                (\<lambda>i s. Inl (Exception ''unknown speaker''))\<rparr>)
              example_handler ''hi'' ''cache/a.wav'' (Some ''EN-MALE'') None) = Inr False
   \<and> filter is_LoadDefaultSpeaker
       (snd (speak (example_world\<lparr>load_default_speaker :=
                (\<lambda>i s. Inl (Exception ''unknown speaker''))\<rparr>)
              example_handler ''hi'' ''cache/a.wav'' (Some ''EN-MALE'') None))
     = [LoadDefaultSpeaker ''EN-MALE'' (Inl (Exception ''unknown speaker''))]"
proof -
  have m: "LoadDefaultSpeaker ''EN-MALE'' (Inl (Exception ''unknown speaker''))
     \<in> set (snd (speak (example_world\<lparr>load_default_speaker :=
                (\<lambda>i s. Inl (Exception ''unknown speaker''))\<rparr>)
              example_handler ''hi'' ''cache/a.wav'' (Some ''EN-MALE'') None))"
    by (simp add: speak_snd try_block_snd resolve_snd resolve_fst clone_step_cases id_step_cases
        generate_and_save_cases ensure_output_dir_cases dirname_def rstrip_slash_def
        example_world_def example_handler_def final_speaker_id_to_load_def attempt_log_def
        DEFAULT_VOICE_def)
  show ?thesis
    using m speak_load_failure_is_final[OF m] by simp
qed

lemma no_create_outside_clone:
  "CreateSpeaker f r \<notin> set (snd (ensure_output_dir w out))"
  "CreateSpeaker f r \<notin> set (snd (id_step w ifc sid st))"
  "CreateSpeaker f r \<notin> set (snd (generate_and_save w ifc sc text out st))"
  by (simp_all add: ensure_output_dir_cases id_step_cases generate_and_save_cases attempt_log_def
      Let_def split: option.splits sum.splits)

lemma create_in_clone_step:
  assumes "CreateSpeaker f r \<in> set (snd (clone_step w ifc vf))"
  shows "vf = Some f \<and> f \<noteq> [] \<and> os_path_exists w f \<and> r = create_speaker w ifc f"
  using assms
  by (auto simp: clone_step_cases split: option.splits sum.splits if_splits)

lemma try_block_create_inv:
  assumes "CreateSpeaker f r \<in> set (snd (speak_try_block w ifc sc text out sid vf))"
  shows "vf = Some f \<and> f \<noteq> [] \<and> os_path_exists w f \<and> r = create_speaker w ifc f"
proof -
  from assms have "CreateSpeaker f r \<in> set (snd (resolve_speaker w ifc sid vf))"
    by (auto simp: try_block_snd no_create_outside_clone split: sum.splits if_splits)
  then have "CreateSpeaker f r \<in> set (snd (clone_step w ifc vf))"
    by (auto simp: resolve_snd no_create_outside_clone split: sum.splits)
  then show ?thesis
    by (rule create_in_clone_step)
qed

lemma try_block_resolution_calls:
  "filter is_CreateSpeaker (snd (speak_try_block w ifc sc text out sid vf))
     = filter is_CreateSpeaker (snd (resolve_speaker w ifc sid vf))"
  "filter is_LoadDefaultSpeaker (snd (speak_try_block w ifc sc text out sid vf))
     = filter is_LoadDefaultSpeaker (snd (resolve_speaker w ifc sid vf))"
  "filter (\<lambda>x. is_CreateSpeaker x \<or> is_LoadDefaultSpeaker x)
       (snd (speak_try_block w ifc sc text out sid vf))
     = filter (\<lambda>x. is_CreateSpeaker x \<or> is_LoadDefaultSpeaker x)
       (snd (resolve_speaker w ifc sid vf))"
  by (simp_all add: try_block_snd generate_and_save_cases is_defs Let_def
      split: option.split sum.split)

text \<open>
  C3. When a call of \<open>speak\<close> calls \<open>create_speaker\<close> and that call raises an Exception,
  this was the only call of \<open>create_speaker\<close> (its argument is \<open>voice_file\<close>), and it is
  followed by exactly one call of \<open>load_default_speaker\<close>, for the identifier determined
  from \<open>speaker_id\<close>.
\<close>

theorem speak_clone_failure_falls_through_once:
  assumes "CreateSpeaker f (Inl e) \<in> set (snd (speak w self text out sid vf))"
    and "is_Exception e"
  shows "vf = Some f
     \<and> filter is_CreateSpeaker (snd (speak w self text out sid vf)) = [CreateSpeaker f (Inl e)]
     \<and> (\<exists>r. filter is_LoadDefaultSpeaker (snd (speak w self text out sid vf))
              = [LoadDefaultSpeaker (final_speaker_id_to_load sid) r])
     \<and> (\<exists>r. filter (\<lambda>x. is_CreateSpeaker x \<or> is_LoadDefaultSpeaker x)
               (snd (speak w self text out sid vf))
              = [CreateSpeaker f (Inl e), LoadDefaultSpeaker (final_speaker_id_to_load sid) r])"
proof -
  have ready: "speak_ready w self text out"
    using assms(1) by (rule speak_engine_event_ready) (simp add: engine_call_def)
  then obtain ifc sc where h: "interface self = Some ifc" "sampler_config self = Some sc"
    by (auto simp: speak_ready_def)
  note sp = speak_when_ready[OF ready h, of sid vf]
  from assms(1) have
    "CreateSpeaker f (Inl e) \<in> set (snd (speak_try_block w ifc sc text out sid vf))"
    by (simp add: sp no_create_outside_clone)
  then have c: "vf = Some f" "f \<noteq> []" "os_path_exists w f" "create_speaker w ifc f = Inl e"
    by (auto dest: try_block_create_inv)
  have E: "filter (\<lambda>x. is_CreateSpeaker x \<or> is_LoadDefaultSpeaker x)
             (snd (ensure_output_dir w out)) = []"
    by (simp add: ensure_output_dir_cases is_defs split: sum.splits)
  have R: "filter is_CreateSpeaker (snd (resolve_speaker w ifc sid (Some f)))
        = [CreateSpeaker f (Inl e)]"
    "\<exists>r. filter is_LoadDefaultSpeaker (snd (resolve_speaker w ifc sid (Some f)))
        = [LoadDefaultSpeaker (final_speaker_id_to_load sid) r]"
    "\<exists>r. filter (\<lambda>x. is_CreateSpeaker x \<or> is_LoadDefaultSpeaker x)
          (snd (resolve_speaker w ifc sid (Some f)))
        = [CreateSpeaker f (Inl e), LoadDefaultSpeaker (final_speaker_id_to_load sid) r]"
    using c assms(2)
    by (simp_all add: resolve_snd clone_step_cases id_step_cases is_defs attempt_log_def
        split: sum.split option.split)
  show ?thesis
    using c(1) R ensure_filters[of w out] E
    by (simp add: sp[unfolded c(1)] try_block_resolution_calls)
qed

theorem speak_clone_failure_falls_through_once_witness:
  "CreateSpeaker ''voice.wav'' (Inl (Exception ''bad sample''))
     \<in> set (snd (speak (example_world\<lparr>create_speaker := (\<lambda>i f. Inl (Exception ''bad sample''))\<rparr>)
              example_handler ''hi'' ''cache/a.wav'' None (Some ''voice.wav'')))
   \<and> filter is_CreateSpeaker
       (snd (speak (example_world\<lparr>create_speaker := (\<lambda>i f. Inl (Exception ''bad sample''))\<rparr>)
              example_handler ''hi'' ''cache/a.wav'' None (Some ''voice.wav'')))
     = [CreateSpeaker ''voice.wav'' (Inl (Exception ''bad sample''))]
   \<and> (\<exists>r. filter is_LoadDefaultSpeaker
       (snd (speak (example_world\<lparr>create_speaker := (\<lambda>i f. Inl (Exception ''bad sample''))\<rparr>)
              example_handler ''hi'' ''cache/a.wav'' None (Some ''voice.wav'')))
     = [LoadDefaultSpeaker ''EN-FEMALE-1-NEUTRAL'' r])"
proof -
  have m: "CreateSpeaker ''voice.wav'' (Inl (Exception ''bad sample''))
     \<in> set (snd (speak (example_world\<lparr>create_speaker := (\<lambda>i f. Inl (Exception ''bad sample''))\<rparr>)
              example_handler ''hi'' ''cache/a.wav'' None (Some ''voice.wav'')))"
    by (simp add: speak_snd try_block_snd resolve_snd resolve_fst clone_step_cases id_step_cases
        generate_and_save_cases ensure_output_dir_cases dirname_def rstrip_slash_def
        example_world_def example_handler_def final_speaker_id_to_load_def attempt_log_def
        DEFAULT_VOICE_def)
  show ?thesis
    using m speak_clone_failure_falls_through_once[OF m]
    by (simp add: final_speaker_id_to_load_def DEFAULT_VOICE_def)
qed

text \<open>
  C4. With \<open>speaker_id\<close> None and \<open>voice_file\<close> None or naming a path that does not exist,
  every call of \<open>load_default_speaker\<close> made by \<open>speak\<close> passes the class default
  \<open>EN-FEMALE-1-NEUTRAL\<close>; when the call reaches the resolution, there is exactly one such
  call.
\<close>

theorem speak_default_identifier:
  assumes "speaker_id = None"
    and "voice_file = None \<or> (\<exists>f. voice_file = Some f \<and> \<not> os_path_exists w f)"
  shows "(\<forall>i r. LoadDefaultSpeaker i r \<in> set (snd (speak w self text out speaker_id voice_file))
            \<longrightarrow> i = DEFAULT_VOICE)
     \<and> DEFAULT_VOICE = ''EN-FEMALE-1-NEUTRAL''
     \<and> (speak_ready w self text out \<longrightarrow>
          (\<exists>r. filter is_LoadDefaultSpeaker (snd (speak w self text out speaker_id voice_file))
                = [LoadDefaultSpeaker DEFAULT_VOICE r]))"
proof (intro conjI allI impI)
  fix i r
  assume m: "LoadDefaultSpeaker i r \<in> set (snd (speak w self text out speaker_id voice_file))"
  then have ready: "speak_ready w self text out"
    by (rule speak_engine_event_ready) (simp add: engine_call_def)
  then obtain ifc sc where h: "interface self = Some ifc" "sampler_config self = Some sc"
    by (auto simp: speak_ready_def)
  from m have
    "LoadDefaultSpeaker i r \<in> set (snd (speak_try_block w ifc sc text out speaker_id voice_file))"
    by (simp add: speak_when_ready[OF ready h] no_load_in_ensure)
  then have "i = final_speaker_id_to_load speaker_id"
    by (rule try_block_load_inv)
  with assms(1) show "i = DEFAULT_VOICE"
    by (simp add: final_speaker_id_to_load_def)
next
  show "DEFAULT_VOICE = ''EN-FEMALE-1-NEUTRAL''"
    by (simp add: DEFAULT_VOICE_def)
next
  assume ready: "speak_ready w self text out"
  then obtain ifc sc where h: "interface self = Some ifc" "sampler_config self = Some sc"
    by (auto simp: speak_ready_def)
  show "\<exists>r. filter is_LoadDefaultSpeaker (snd (speak w self text out speaker_id voice_file))
                = [LoadDefaultSpeaker DEFAULT_VOICE r]"
  proof -
    have "\<exists>r. filter is_LoadDefaultSpeaker (snd (resolve_speaker w ifc speaker_id voice_file))
                = [LoadDefaultSpeaker DEFAULT_VOICE r]"
    proof -
      have "fst (clone_step w ifc voice_file) = Inr (None, Unknown)"
        using assms(2) by (auto simp: clone_step_cases)
      then show ?thesis
        using assms(1) clone_filters(1)[of w ifc voice_file]
        by (simp add: resolve_snd id_step_cases is_defs attempt_log_def
            final_speaker_id_to_load_def split: sum.split)
    qed
    then show ?thesis
      using ensure_filters[of w out]
      by (simp add: speak_when_ready[OF ready h] try_block_resolution_calls)
  qed
qed

theorem speak_default_identifier_witness:
  "filter is_LoadDefaultSpeaker
     (snd (speak example_world example_handler ''hi'' ''cache/a.wav'' None (Some ''gone.wav'')))
   = [LoadDefaultSpeaker ''EN-FEMALE-1-NEUTRAL'' (Inr (Some (Speaker 2)))]
   \<and> \<not> os_path_exists example_world ''gone.wav''"
proof -
  have a: "Some ''gone.wav'' = None \<or>
      (\<exists>f. Some ''gone.wav'' = Some f \<and> \<not> os_path_exists example_world f)"
    by (simp add: example_world_def)
  have r: "speak_ready example_world example_handler ''hi'' ''cache/a.wav''"
    by (simp add: speak_ready_def example_world_def example_handler_def
        ensure_output_dir_cases dirname_def rstrip_slash_def)
  have l: "LoadDefaultSpeaker ''EN-FEMALE-1-NEUTRAL'' (Inr (Some (Speaker 2)))
     \<in> set (snd (speak example_world example_handler ''hi'' ''cache/a.wav'' None
                   (Some ''gone.wav'')))"
    by (simp add: speak_snd try_block_snd resolve_snd resolve_fst clone_step_cases id_step_cases
        generate_and_save_cases ensure_output_dir_cases dirname_def rstrip_slash_def
        example_world_def example_handler_def final_speaker_id_to_load_def attempt_log_def
        DEFAULT_VOICE_def)
  from speak_default_identifier[OF refl a, of example_handler "''hi''" "''cache/a.wav''"] r
  obtain x where x: "filter is_LoadDefaultSpeaker
     (snd (speak example_world example_handler ''hi'' ''cache/a.wav'' None (Some ''gone.wav'')))
     = [LoadDefaultSpeaker DEFAULT_VOICE x]"
    by blast
  from l have "LoadDefaultSpeaker ''EN-FEMALE-1-NEUTRAL'' (Inr (Some (Speaker 2)))
     \<in> set (filter is_LoadDefaultSpeaker
     (snd (speak example_world example_handler ''hi'' ''cache/a.wav'' None (Some ''gone.wav''))))"
    by (simp add: is_defs)
  with x show ?thesis
    by (simp add: example_world_def DEFAULT_VOICE_def)
qed




lemma speak_load_without_profile:
  assumes "LoadDefaultSpeaker i r \<in> set (snd (speak w self text out sid vf))"
    and "no_profile r"
  shows "fst (speak w self text out sid vf) = Inr False
     \<and> filter is_Generate (snd (speak w self text out sid vf)) = []
     \<and> filter is_Save (snd (speak w self text out sid vf)) = []
     \<and> (\<forall>f p. CreateSpeaker f (Inr (Some p)) \<notin> set (snd (speak w self text out sid vf)))"
proof -
  have ready: "speak_ready w self text out"
    using assms(1) by (rule speak_engine_event_ready) (simp add: engine_call_def)
  then obtain ifc sc where h: "interface self = Some ifc" "sampler_config self = Some sc"
    by (auto simp: speak_ready_def)
  note sp = speak_when_ready[OF ready h, of sid vf]
  from assms(1) have
    "LoadDefaultSpeaker i r \<in> set (snd (speak_try_block w ifc sc text out sid vf))"
    by (simp add: sp no_load_in_ensure)
  then obtain src where c: "fst (clone_step w ifc vf) = Inr (None, src)"
      and l: "load_default_speaker w ifc (final_speaker_id_to_load sid) = r"
    by (rule try_block_load_inv) simp
  have nc: "CreateSpeaker f (Inr (Some p)) \<notin> set (snd (clone_step w ifc vf))" for f p
    using c by (auto simp: clone_step_cases split: option.splits sum.splits if_splits)
  show ?thesis
    using c l assms(2) ensure_filters[of w out] clone_filters[of w ifc vf] nc
    by (auto simp: sp try_block_fst try_block_snd resolve_fst resolve_snd id_step_cases
        generate_and_save_cases is_defs attempt_log_def no_profile_def no_create_outside_clone
        split: option.splits sum.splits)
qed

text \<open>What \<open>TTSHandler()\<close> leaves when the construction of the engine fails.\<close>

lemma TTSHandler_init_failed:
  assumes "auto_config w args = Inl e \<or>
           (\<exists>cfg. auto_config w args = Inr cfg \<and> new_interface w cfg = Inl e)"
    and "is_Exception e"
  shows "\<exists>h es. TTSHandler_init w args = (Inr h, es) \<and> interface h = None \<and>
           sampler_config h = None"
  using assms
  by (auto simp: TTSHandler_init_def prog_defs split: sum.splits)

text \<open>
  C5. \<open>speak\<close> returns False and never calls \<open>save\<close> when the text is empty, when the
  interface is None, and when the identifier loading of the call yields no profile (the
  cloning, if tried, having yielded none either). A handler whose interface is None answers
  every call, in every world, with False and the one log record: it calls nothing, and
  initialization is not tried again. A \<open>TTSHandler()\<close> whose engine construction raises an
  Exception is such a handler.
\<close>

theorem speak_false_without_output:
  "(text = [] \<or> interface self = None \<or>
      (\<exists>i r. LoadDefaultSpeaker i r \<in> set (snd (speak w self text out sid vf)) \<and> no_profile r)
     \<longrightarrow> fst (speak w self text out sid vf) = Inr False
         \<and> filter is_Save (snd (speak w self text out sid vf)) = [])
   \<and> (interface self = None
     \<longrightarrow> speak w self text out sid vf = (Inr False, [Log ERROR InterfaceNotInitialized]))
   \<and> ((auto_config w0 args = Inl e \<or>
        (\<exists>cfg. auto_config w0 args = Inr cfg \<and> new_interface w0 cfg = Inl e)) \<and> is_Exception e
     \<longrightarrow> (\<exists>h es. TTSHandler_init w0 args = (Inr h, es) \<and> interface h = None \<and>
            (\<forall>w' text' out' sid' vf'. speak w' h text' out' sid' vf'
                = (Inr False, [Log ERROR InterfaceNotInitialized]))))"
proof (intro conjI impI)
  assume a: "text = [] \<or> interface self = None \<or>
      (\<exists>i r. LoadDefaultSpeaker i r \<in> set (snd (speak w self text out sid vf)) \<and> no_profile r)"
  show "fst (speak w self text out sid vf) = Inr False"
    using a speak_load_without_profile[of _ _ w self "text" out sid vf]
    by (auto simp: speak_fst split: option.splits)
  show "filter is_Save (snd (speak w self text out sid vf)) = []"
    using a speak_load_without_profile[of _ _ w self "text" out sid vf]
    by (auto simp: speak_snd is_defs split: option.splits)
next
  assume "interface self = None"
  then show "speak w self text out sid vf = (Inr False, [Log ERROR InterfaceNotInitialized])"
    by (simp add: speak_def thn_logging_ret)
next
  assume "(auto_config w0 args = Inl e \<or>
        (\<exists>cfg. auto_config w0 args = Inr cfg \<and> new_interface w0 cfg = Inl e)) \<and> is_Exception e"
  then obtain h es where "TTSHandler_init w0 args = (Inr h, es)" "interface h = None"
    using TTSHandler_init_failed[of w0 args e] by blast
  then show "\<exists>h es. TTSHandler_init w0 args = (Inr h, es) \<and> interface h = None \<and>
            (\<forall>w' text' out' sid' vf'. speak w' h text' out' sid' vf'
                = (Inr False, [Log ERROR InterfaceNotInitialized]))"
    by (auto simp: speak_def thn_logging_ret)
qed

theorem speak_false_without_output_witness:
  "fst (speak (example_world\<lparr>load_default_speaker := (\<lambda>i s. Inr None)\<rparr>) example_handler
          ''hi'' ''cache/a.wav'' None None) = Inr False
   \<and> filter is_Save (snd (speak (example_world\<lparr>load_default_speaker := (\<lambda>i s. Inr None)\<rparr>)
          example_handler ''hi'' ''cache/a.wav'' None None)) = []
   \<and> LoadDefaultSpeaker ''EN-FEMALE-1-NEUTRAL'' (Inr None)
       \<in> set (snd (speak (example_world\<lparr>load_default_speaker := (\<lambda>i s. Inr None)\<rparr>)
          example_handler ''hi'' ''cache/a.wav'' None None))
   \<and> speak example_world (example_handler\<lparr>interface := None\<rparr>) [] ''cache/a.wav'' None None
       = (Inr False, [Log ERROR InterfaceNotInitialized])
   \<and> (\<exists>h es. TTSHandler_init
          (example_world\<lparr>auto_config := (\<lambda>a. Inl (Exception ''download failed''))\<rparr>)
          (InitArgs ''1B'' ''LLAMACPP'' ''FP16'') = (Inr h, es) \<and> interface h = None)"
proof -
  let ?w = "example_world\<lparr>load_default_speaker := (\<lambda>i s. Inr None)\<rparr>"
  let ?v = "example_world\<lparr>auto_config := (\<lambda>a. Inl (Exception ''download failed''))\<rparr>"
  have m: "LoadDefaultSpeaker ''EN-FEMALE-1-NEUTRAL'' (Inr None)
       \<in> set (snd (speak ?w example_handler ''hi'' ''cache/a.wav'' None None))"
    by code_simp
  have n: "no_profile (Inr None)"
    by (simp add: no_profile_def)
  have a: "''hi'' = [] \<or> interface example_handler = None \<or>
      (\<exists>i r. LoadDefaultSpeaker i r
           \<in> set (snd (speak ?w example_handler ''hi'' ''cache/a.wav'' None None)) \<and>
         no_profile r)"
    using m n by blast
  have b: "[] = [] \<or> interface (example_handler\<lparr>interface := None\<rparr>) = None \<or>
      (\<exists>i r. LoadDefaultSpeaker i r
           \<in> set (snd (speak example_world (example_handler\<lparr>interface := None\<rparr>) []
                  ''cache/a.wav'' None None)) \<and> no_profile r)"
    by simp
  have c: "(auto_config ?v (InitArgs ''1B'' ''LLAMACPP'' ''FP16'') = Inl (Exception ''download failed'')
       \<or> (\<exists>cfg. auto_config ?v (InitArgs ''1B'' ''LLAMACPP'' ''FP16'') = Inr cfg \<and>
            new_interface ?v cfg = Inl (Exception ''download failed'')))
       \<and> is_Exception (Exception ''download failed'')"
    by (simp add: example_world_def)
  have i: "interface (example_handler\<lparr>interface := None\<rparr>) = None"
    by simp
  note t1 = speak_false_without_output[of "''hi''" example_handler ?w "''cache/a.wav''" None None]
  note t2 = speak_false_without_output[of "[]" "example_handler\<lparr>interface := None\<rparr>"
      example_world "''cache/a.wav''" None None ?v "InitArgs ''1B'' ''LLAMACPP'' ''FP16''"
      "Exception ''download failed''"]
  from t1 a have p1: "fst (speak ?w example_handler ''hi'' ''cache/a.wav'' None None) = Inr False
      \<and> filter is_Save (snd (speak ?w example_handler ''hi'' ''cache/a.wav'' None None)) = []"
    by blast
  from t2 i have p2: "speak example_world (example_handler\<lparr>interface := None\<rparr>) []
      ''cache/a.wav'' None None = (Inr False, [Log ERROR InterfaceNotInitialized])"
    by blast
  from t2 c have p3: "\<exists>h es. TTSHandler_init ?v (InitArgs ''1B'' ''LLAMACPP'' ''FP16'') = (Inr h, es)
      \<and> interface h = None"
    by blast
  from p1 m p2 p3 show ?thesis
    by blast
qed







subsection \<open>Exceptions in speak\<close>




subsection \<open>A voice file that does not exist\<close>

lemma try_block_missing_voice_file:
  assumes "\<not> os_path_exists w f"
  shows "fst (speak_try_block w ifc sc text out sid (Some f)) =
         fst (speak_try_block w ifc sc text out sid None)"
    and "snd (speak_try_block w ifc sc text out sid (Some f)) =
         (if f = [] then [] else [PathExists f False]) @
         snd (speak_try_block w ifc sc text out sid None)"
  using assms
  by (simp_all add: try_block_fst try_block_snd resolve_fst resolve_snd clone_step_cases)

lemma no_clone_logs_outside_clone:
  "Log l (AttemptClone g) \<notin> set (snd (ensure_output_dir w out))"
  "Log l (CloneError g e) \<notin> set (snd (ensure_output_dir w out))"
  "Log l (AttemptClone g) \<notin> set (snd (speak_try_block w ifc sc text out sid None))"
  "Log l (CloneError g e) \<notin> set (snd (speak_try_block w ifc sc text out sid None))"
  by (auto simp: ensure_output_dir_cases try_block_snd resolve_fst resolve_snd clone_step_cases
      id_step_cases generate_and_save_cases attempt_log_def Let_def
      split: option.split sum.split)

text \<open>
  C10. When \<open>voice_file\<close> names a path that does not exist, \<open>speak\<close> never calls
  \<open>create_speaker\<close> and logs neither a cloning attempt nor a cloning error. When the call
  reaches the resolution, it goes straight to the identifier: the first call into the
  engine is \<open>load_default_speaker\<close> for the identifier determined from \<open>speaker_id\<close>,
  and that is the only call of \<open>load_default_speaker\<close>. The result is the result of the call
  with \<open>voice_file\<close> None, and the events are those of that call, but for the record of
  the one question \<open>os.path.exists(voice_file)\<close>.
\<close>

theorem speak_missing_voice_file_as_none:
  assumes "voice_file = Some f" "\<not> os_path_exists w f"
  shows "filter is_CreateSpeaker (snd (speak w self text out sid voice_file)) = []
     \<and> (\<forall>l g. Log l (AttemptClone g) \<notin> set (snd (speak w self text out sid voice_file)))
     \<and> (\<forall>l g e. Log l (CloneError g e) \<notin> set (snd (speak w self text out sid voice_file)))
     \<and> (speak_ready w self text out \<longrightarrow>
          (\<exists>r. filter is_LoadDefaultSpeaker (snd (speak w self text out sid voice_file))
                = [LoadDefaultSpeaker (final_speaker_id_to_load sid) r]) \<and>
          (\<exists>r rest. filter engine_call (snd (speak w self text out sid voice_file))
                = LoadDefaultSpeaker (final_speaker_id_to_load sid) r # rest))
     \<and> fst (speak w self text out sid voice_file) = fst (speak w self text out sid None)
     \<and> filter (\<lambda>x. x \<noteq> PathExists f False) (snd (speak w self text out sid voice_file))
         = filter (\<lambda>x. x \<noteq> PathExists f False) (snd (speak w self text out sid None))
     \<and> length (snd (speak w self text out sid voice_file))
         \<le> Suc (length (snd (speak w self text out sid None)))"
proof -
  note tb = try_block_missing_voice_file[OF assms(2)]
  have c: "CreateSpeaker g r \<notin> set (snd (speak w self text out sid (Some f)))" for g r
  proof
    assume m: "CreateSpeaker g r \<in> set (snd (speak w self text out sid (Some f)))"
    then have ready: "speak_ready w self text out"
      by (rule speak_engine_event_ready) (simp add: engine_call_def)
    then obtain ifc sc where h: "interface self = Some ifc" "sampler_config self = Some sc"
      by (auto simp: speak_ready_def)
    from m have "CreateSpeaker g r \<in> set (snd (speak_try_block w ifc sc text out sid (Some f)))"
      by (simp add: speak_when_ready[OF ready h] no_create_outside_clone)
    from try_block_create_inv[OF this] assms(2) show False
      by simp
  qed
  have "filter is_CreateSpeaker (snd (speak w self text out sid (Some f))) = []"
    using c by (auto simp: filter_empty_conv is_CreateSpeaker_def split: event.splits)
  moreover have "Log l (AttemptClone g) \<notin> set (snd (speak w self text out sid (Some f)))"
      "Log l (CloneError g e) \<notin> set (snd (speak w self text out sid (Some f)))" for l g e
    by (auto simp: speak_snd tb no_clone_logs_outside_clone split: option.split sum.split)
  moreover have "(\<exists>r. filter is_LoadDefaultSpeaker (snd (speak w self text out sid (Some f)))
                = [LoadDefaultSpeaker (final_speaker_id_to_load sid) r]) \<and>
          (\<exists>r rest. filter engine_call (snd (speak w self text out sid (Some f)))
                = LoadDefaultSpeaker (final_speaker_id_to_load sid) r # rest)"
    if ready: "speak_ready w self text out"
  proof -
    from ready obtain ifc sc where h: "interface self = Some ifc" "sampler_config self = Some sc"
      by (auto simp: speak_ready_def)
    have cl: "clone_step w ifc (Some f) =
        (Inr (None, Unknown), if f = [] then [] else [PathExists f False])"
      using assms(2) by (simp add: clone_step_cases)
    have l: "\<exists>r. filter is_LoadDefaultSpeaker (snd (resolve_speaker w ifc sid (Some f)))
                = [LoadDefaultSpeaker (final_speaker_id_to_load sid) r]"
      by (simp add: resolve_snd cl id_step_cases is_defs attempt_log_def
          split: sum.split option.split)
    have e: "\<exists>r rest. filter engine_call (snd (resolve_speaker w ifc sid (Some f)))
                = LoadDefaultSpeaker (final_speaker_id_to_load sid) r # rest"
      by (simp add: resolve_snd cl id_step_cases engine_call_def attempt_log_def
          split: sum.split option.split)
    from l have "\<exists>r. filter is_LoadDefaultSpeaker (snd (speak w self text out sid (Some f)))
                = [LoadDefaultSpeaker (final_speaker_id_to_load sid) r]"
      using ensure_filters[of w out]
      by (simp add: speak_when_ready[OF ready h] try_block_resolution_calls)
    moreover from e have "\<exists>r rest. filter engine_call (snd (speak w self text out sid (Some f)))
                = LoadDefaultSpeaker (final_speaker_id_to_load sid) r # rest"
      by (auto simp: speak_when_ready[OF ready h] ensure_no_engine_call try_block_snd)
    ultimately show ?thesis
      by blast
  qed
  moreover have "fst (speak w self text out sid (Some f)) = fst (speak w self text out sid None)"
    by (simp add: speak_fst tb split: option.split sum.split)
  moreover have "filter (\<lambda>x. x \<noteq> PathExists f False) (snd (speak w self text out sid (Some f)))
         = filter (\<lambda>x. x \<noteq> PathExists f False) (snd (speak w self text out sid None))"
    by (simp add: speak_snd tb split: option.split sum.split)
  moreover have "length (snd (speak w self text out sid (Some f)))
         \<le> Suc (length (snd (speak w self text out sid None)))"
    by (simp add: speak_snd tb split: option.split sum.split)
  ultimately show ?thesis
    using assms(1) by simp
qed

theorem speak_missing_voice_file_as_none_witness:
  "\<not> os_path_exists example_world ''gone.wav''
   \<and> speak_ready example_world example_handler ''hi'' ''cache/a.wav''
   \<and> fst (speak example_world example_handler ''hi'' ''cache/a.wav'' None (Some ''gone.wav''))
       = fst (speak example_world example_handler ''hi'' ''cache/a.wav'' None None)
   \<and> filter is_CreateSpeaker
       (snd (speak example_world example_handler ''hi'' ''cache/a.wav'' None (Some ''gone.wav'')))
       = []
   \<and> (\<exists>r. filter is_LoadDefaultSpeaker
       (snd (speak example_world example_handler ''hi'' ''cache/a.wav'' None (Some ''gone.wav'')))
       = [LoadDefaultSpeaker ''EN-FEMALE-1-NEUTRAL'' r])
   \<and> PathExists ''gone.wav'' False
       \<in> set (snd (speak example_world example_handler ''hi'' ''cache/a.wav'' None
                     (Some ''gone.wav'')))"
proof -
  have a: "\<not> os_path_exists example_world ''gone.wav''"
    by code_simp
  have b: "PathExists ''gone.wav'' False
       \<in> set (snd (speak example_world example_handler ''hi'' ''cache/a.wav'' None
                     (Some ''gone.wav'')))"
    by code_simp
  have r: "speak_ready example_world example_handler ''hi'' ''cache/a.wav''"
    by code_simp
  have i: "final_speaker_id_to_load None = ''EN-FEMALE-1-NEUTRAL''"
    by code_simp
  from speak_missing_voice_file_as_none[OF refl a, of example_handler "''hi''" "''cache/a.wav''"
      None] r
  have "fst (speak example_world example_handler ''hi'' ''cache/a.wav'' None (Some ''gone.wav''))
       = fst (speak example_world example_handler ''hi'' ''cache/a.wav'' None None)
     \<and> filter is_CreateSpeaker
         (snd (speak example_world example_handler ''hi'' ''cache/a.wav'' None (Some ''gone.wav'')))
         = []
     \<and> (\<exists>r. filter is_LoadDefaultSpeaker
         (snd (speak example_world example_handler ''hi'' ''cache/a.wav'' None (Some ''gone.wav'')))
         = [LoadDefaultSpeaker (final_speaker_id_to_load None) r])"
    by blast
  with a b r show ?thesis
    unfolding i by blast
qed

subsection \<open>load\_config\<close>

lemma fst_try_except2:
  "fst (try_except2 m c1 h1 c2 h2) =
     (case fst m of
        Inl e \<Rightarrow> if c1 e then fst (h1 e) else if c2 e then fst (h2 e) else Inl e
      | Inr a \<Rightarrow> Inr a)"
  by (simp add: try_except2_def split: prod.splits sum.splits)

lemma snd_try_except2:
  "snd (try_except2 m c1 h1 c2 h2) =
     snd m @ (case fst m of
                Inl e \<Rightarrow> if c1 e then snd (h1 e) else if c2 e then snd (h2 e) else []
              | Inr a \<Rightarrow> [])"
  by (simp add: try_except2_def split: prod.splits sum.splits)

lemma fst_call: "fst (call r ev) = r"
  by (simp add: call_def)

lemma snd_call: "snd (call r ev) = [ev r]"
  by (simp add: call_def)

lemma fst_exists_c: "fst (exists_c w p) = Inr (os_path_exists w p)"
  by (simp add: exists_c_def)

lemma snd_exists_c: "snd (exists_c w p) = [PathExists p (os_path_exists w p)]"
  by (simp add: exists_c_def)

lemma fst_lift: "fst (lift r) = r"
  by (simp add: lift_def)

lemma is_JSONDecodeError_is_Exception: "is_JSONDecodeError e \<Longrightarrow> is_Exception e"
  by (cases e) simp_all

lemma load_config_fst:
  "fst (load_config w) =
     (if \<not> os_path_exists w CONFIG_FILE then Inr default_config
      else (case json_load w CONFIG_FILE of
              Inl e \<Rightarrow> if is_Exception e then Inr default_config else Inl e
            | Inr doc \<Rightarrow>
                (case fst (validate_config w doc) of
                   Inl e \<Rightarrow> if is_Exception e then Inr default_config else Inl e
                 | Inr c \<Rightarrow> Inr c)))"
  using is_JSONDecodeError_is_Exception
  by (auto simp: load_config_def fst_bnd fst_try_except2 fst_call fst_exists_c thn_logging_ret
      split: sum.splits)

lemma map_of_dict_set: "map_of (dict_set d k v) = (map_of d)(k \<mapsto> v)"
  by (induction d k v rule: dict_set.induct) auto

lemma dict_get_dict_set: "dict_get (dict_set d k v) k = v"
  by (simp add: dict_get_def map_of_dict_set)

lemma dict_index_dict_get: "dict_index d k = Inr v \<Longrightarrow> dict_get d k = v"
  by (auto simp: dict_index_def dict_get_def split: option.splits)

lemma check_voice_file_fst:
  "fst (check_voice_file w cfg) =
     (case dict_index cfg ''voice_file'' of
        Inl e \<Rightarrow> Inl e
      | Inr v \<Rightarrow>
          if truthy v then
            (case fst (exists_json w v) of
               Inl e \<Rightarrow> Inl e
             | Inr there \<Rightarrow>
                 if there then Inr cfg else Inr (dict_set cfg ''voice_file'' JNull))
          else Inr cfg)"
  by (simp add: check_voice_file_def fst_bnd fst_lift thn_logging_ret fst_ret split: sum.split)

lemma check_voice_file_invariant:
  assumes "fst (check_voice_file w cfg) = Inr c" "truthy (dict_get c ''voice_file'')"
  shows "fst (exists_json w (dict_get c ''voice_file'')) = Inr True"
proof (cases "dict_index cfg ''voice_file''")
  case (Inl e)
  with assms(1) show ?thesis
    by (simp add: check_voice_file_fst)
next
  case v: (Inr v)
  then have g: "dict_get cfg ''voice_file'' = v"
    by (rule dict_index_dict_get)
  show ?thesis
  proof (cases "truthy v")
    case False
    with assms v g show ?thesis
      by (simp add: check_voice_file_fst)
  next
    case True
    show ?thesis
    proof (cases "fst (exists_json w v)")
      case (Inl e)
      with assms(1) v True show ?thesis
        by (simp add: check_voice_file_fst)
    next
      case (Inr there)
      with assms v True g show ?thesis
        by (cases there) (auto simp: check_voice_file_fst dict_get_dict_set)
    qed
  qed
qed

lemma validate_config_voice_file:
  assumes "fst (validate_config w doc) = Inr c" "truthy (dict_get c ''voice_file'')"
  shows "fst (exists_json w (dict_get c ''voice_file'')) = Inr True"
  using assms
  by (cases doc) (simp_all add: validate_config_def fst_lift check_voice_file_invariant)

lemma validate_config_missing_file:
  assumes "map_of d ''voice_file'' = Some (JString p)" "p \<noteq> []" "\<not> os_path_exists w p"
  shows "\<exists>c. fst (validate_config w (JObject d)) = Inr c \<and> dict_get c ''voice_file'' = JNull"
proof -
  from assms(1) have "dict_index (ensure_keys d) ''voice_file'' = Inr (JString p)"
    by (simp add: ensure_keys_def Let_def dict_contains_def dict_index_def map_of_dict_set)
  with assms(2,3) show ?thesis
    by (simp add: validate_config_def check_voice_file_fst fst_exists_c dict_get_dict_set)
qed

text \<open>
  C8. When the configuration file exists and parses to a dict whose \<open>voice_file\<close> is a path
  (a non-empty string) that does not exist, \<open>load_config\<close> returns a configuration whose
  \<open>voice_file\<close> is None. And whatever \<open>load_config\<close> returns, a \<open>voice_file\<close> in it that
  counts as set (a true value) has been found to exist by \<open>os.path.exists\<close> during the load.
\<close>

theorem load_config_voice_file_exists:
  "(os_path_exists w CONFIG_FILE \<and> json_load w CONFIG_FILE = Inr (JObject d) \<and>
      map_of d ''voice_file'' = Some (JString p) \<and> p \<noteq> [] \<and> \<not> os_path_exists w p
     \<longrightarrow> (\<exists>c. fst (load_config w) = Inr c \<and> dict_get c ''voice_file'' = JNull))
   \<and> (fst (load_config w) = Inr c \<and> truthy (dict_get c ''voice_file'')
     \<longrightarrow> fst (exists_json w (dict_get c ''voice_file'')) = Inr True)
   \<and> (fst (load_config w) = Inr c \<and> dict_get c ''voice_file'' = JString q \<and> q \<noteq> []
     \<longrightarrow> os_path_exists w q)"
proof (intro conjI impI)
  assume "os_path_exists w CONFIG_FILE \<and> json_load w CONFIG_FILE = Inr (JObject d) \<and>
      map_of d ''voice_file'' = Some (JString p) \<and> p \<noteq> [] \<and> \<not> os_path_exists w p"
  then show "\<exists>c. fst (load_config w) = Inr c \<and> dict_get c ''voice_file'' = JNull"
    using validate_config_missing_file[of d p w]
    by (auto simp: load_config_fst)
next
  assume a: "fst (load_config w) = Inr c \<and> truthy (dict_get c ''voice_file'')"
  then show "fst (exists_json w (dict_get c ''voice_file'')) = Inr True"
    using validate_config_voice_file[of w _ c]
    by (auto simp: load_config_fst default_config_def dict_get_def
        split: if_splits sum.splits)
next
  assume a: "fst (load_config w) = Inr c \<and> dict_get c ''voice_file'' = JString q \<and> q \<noteq> []"
  then have "fst (exists_json w (dict_get c ''voice_file'')) = Inr True"
    using validate_config_voice_file[of w _ c]
    by (auto simp: load_config_fst default_config_def dict_get_def
        split: if_splits sum.splits)
  with a show "os_path_exists w q"
    by (simp add: fst_exists_c)
qed

theorem load_config_voice_file_exists_witness:
  "os_path_exists example_world CONFIG_FILE
   \<and> json_load example_world CONFIG_FILE = Inr (JObject [(''voice_file'', JString ''missing.wav'')])
   \<and> \<not> os_path_exists example_world ''missing.wav''
   \<and> (\<exists>c. fst (load_config example_world) = Inr c \<and> dict_get c ''voice_file'' = JNull)
   \<and> fst (load_config (example_world\<lparr>json_load :=
          (\<lambda>p. Inr (JObject [(''voice_file'', JString ''voice.wav'')]))\<rparr>))
       = Inr [(''voice_file'', JString ''voice.wav''), (''speaker_id'', JNull)]
   \<and> os_path_exists (example_world\<lparr>json_load :=
          (\<lambda>p. Inr (JObject [(''voice_file'', JString ''voice.wav'')]))\<rparr>) ''voice.wav''"
proof -
  let ?v = "example_world\<lparr>json_load :=
          (\<lambda>p. Inr (JObject [(''voice_file'', JString ''voice.wav'')]))\<rparr>"
  have a: "os_path_exists example_world CONFIG_FILE"
    by code_simp
  have b: "json_load example_world CONFIG_FILE
      = Inr (JObject [(''voice_file'', JString ''missing.wav'')])"
    by code_simp
  have c: "map_of [(''voice_file'', JString ''missing.wav'')] ''voice_file''
      = Some (JString ''missing.wav'')"
    by simp
  have d: "\<not> os_path_exists example_world ''missing.wav''"
    by code_simp
  have e: "fst (load_config ?v) = Inr [(''voice_file'', JString ''voice.wav''), (''speaker_id'', JNull)]"
    by code_simp
  have f: "dict_get [(''voice_file'', JString ''voice.wav''), (''speaker_id'', JNull)] ''voice_file''
      = JString ''voice.wav''"
    by code_simp
  note t1 = load_config_voice_file_exists[of example_world
      "[(''voice_file'', JString ''missing.wav'')]" "''missing.wav''"]
  note t2 = load_config_voice_file_exists[of ?v _ _
      "[(''voice_file'', JString ''voice.wav''), (''speaker_id'', JNull)]" "''voice.wav''"]
  from t1 a b c d have p1: "\<exists>c. fst (load_config example_world) = Inr c \<and>
      dict_get c ''voice_file'' = JNull"
    by blast
  from t2 e f have p2: "os_path_exists ?v ''voice.wav''"
    by blast
  from a b d p1 e p2 show ?thesis
    by blast
qed

text \<open>
  C9. \<open>load_config\<close> returns the default configuration, both fields None, when the
  configuration file is missing, when opening or parsing it raises an Exception (a
  JSONDecodeError among them), and when the parsed document makes the validation raise an
  Exception, as every document that is not a dict does. In none of these cases, and in no
  other, does an exception of class Exception leave \<open>load_config\<close>.
\<close>

theorem load_config_defaults:
  "(\<not> os_path_exists w CONFIG_FILE \<longrightarrow> fst (load_config w) = Inr default_config)
   \<and> (os_path_exists w CONFIG_FILE \<and> json_load w CONFIG_FILE = Inl e \<and> is_Exception e
     \<longrightarrow> fst (load_config w) = Inr default_config)
   \<and> (os_path_exists w CONFIG_FILE \<and> json_load w CONFIG_FILE = Inr doc \<and>
      fst (validate_config w doc) = Inl e \<and> is_Exception e
     \<longrightarrow> fst (load_config w) = Inr default_config)
   \<and> (os_path_exists w CONFIG_FILE \<and> json_load w CONFIG_FILE = Inr doc \<and> (\<forall>d. doc \<noteq> JObject d)
     \<longrightarrow> fst (load_config w) = Inr default_config)
   \<and> default_config = [(''speaker_id'', JNull), (''voice_file'', JNull)]
   \<and> (fst (load_config w) = Inl x \<longrightarrow> \<not> is_Exception x)"
proof (intro conjI impI)
  assume "os_path_exists w CONFIG_FILE \<and> json_load w CONFIG_FILE = Inr doc \<and> (\<forall>d. doc \<noteq> JObject d)"
  then show "fst (load_config w) = Inr default_config"
    by (cases doc) (simp_all add: load_config_fst validate_config_def fst_lift)
qed (auto simp: load_config_fst default_config_def split: sum.splits if_splits)

theorem load_config_defaults_witness:
  "fst (load_config (example_world\<lparr>os_path_exists := (\<lambda>p. False)\<rparr>)) = Inr default_config
   \<and> fst (load_config (example_world\<lparr>json_load :=
          (\<lambda>p. Inl (JSONDecodeError ''Expecting value''))\<rparr>)) = Inr default_config
   \<and> fst (load_config (example_world\<lparr>json_load := (\<lambda>p. Inr (JArray [JInt 1]))\<rparr>))
       = Inr default_config
   \<and> fst (validate_config example_world (JObject [(''voice_file'', JArray [JInt 1])]))
       = Inl (Exception ''TypeError'')
   \<and> fst (load_config (example_world\<lparr>json_load :=
          (\<lambda>p. Inr (JObject [(''voice_file'', JArray [JInt 1])]))\<rparr>)) = Inr default_config
   \<and> fst (load_config (example_world\<lparr>json_load := (\<lambda>p. Inl KeyboardInterrupt)\<rparr>))
       = Inl KeyboardInterrupt
   \<and> \<not> is_Exception KeyboardInterrupt"
proof -
  let ?a = "example_world\<lparr>os_path_exists := (\<lambda>p. False)\<rparr>"
  let ?b = "example_world\<lparr>json_load := (\<lambda>p. Inl (JSONDecodeError ''Expecting value''))\<rparr>"
  let ?c = "example_world\<lparr>json_load := (\<lambda>p. Inr (JArray [JInt 1]))\<rparr>"
  let ?d = "example_world\<lparr>json_load := (\<lambda>p. Inr (JObject [(''voice_file'', JArray [JInt 1])]))\<rparr>"
  let ?k = "example_world\<lparr>json_load := (\<lambda>p. Inl KeyboardInterrupt)\<rparr>"
  have a: "\<not> os_path_exists ?a CONFIG_FILE"
    by code_simp
  have b: "os_path_exists ?b CONFIG_FILE \<and>
      json_load ?b CONFIG_FILE = Inl (JSONDecodeError ''Expecting value'') \<and>
      is_Exception (JSONDecodeError ''Expecting value'')"
    by code_simp
  have c: "os_path_exists ?c CONFIG_FILE \<and> json_load ?c CONFIG_FILE = Inr (JArray [JInt 1]) \<and>
      (\<forall>d. JArray [JInt 1] \<noteq> JObject d)"
    by (simp add: example_world_def CONFIG_FILE_def)
  have d0: "fst (validate_config example_world (JObject [(''voice_file'', JArray [JInt 1])]))
       = Inl (Exception ''TypeError'')"
    by code_simp
  have d: "os_path_exists ?d CONFIG_FILE \<and>
      json_load ?d CONFIG_FILE = Inr (JObject [(''voice_file'', JArray [JInt 1])]) \<and>
      fst (validate_config ?d (JObject [(''voice_file'', JArray [JInt 1])]))
        = Inl (Exception ''TypeError'') \<and>
      is_Exception (Exception ''TypeError'')"
    by code_simp
  have k: "fst (load_config ?k) = Inl KeyboardInterrupt"
    by code_simp
  from load_config_defaults[of ?a] a
  have p1: "fst (load_config ?a) = Inr default_config"
    by blast
  from load_config_defaults[of ?b "JSONDecodeError ''Expecting value''"] b
  have p2: "fst (load_config ?b) = Inr default_config"
    by blast
  from load_config_defaults[of ?c _ "JArray [JInt 1]"] c
  have p3: "fst (load_config ?c) = Inr default_config"
    by blast
  from load_config_defaults[of ?d "Exception ''TypeError''"
      "JObject [(''voice_file'', JArray [JInt 1])]"] d
  have p4: "fst (load_config ?d) = Inr default_config"
    by blast
  from load_config_defaults[of ?k _ _ KeyboardInterrupt] k
  have p5: "\<not> is_Exception KeyboardInterrupt"
    by blast
  from p1 p2 p3 d0 p4 k p5 show ?thesis
    by blast
qed

subsection \<open>The loop of main\<close>













text \<open>
  An iteration that ends with Continue does not end the loop: the next iteration runs, in
  the next world.
\<close>

lemma main_loop_goes_on:
  assumes "fst (loop_iteration w h sid vf) = Inr Continue"
  shows "main_loop h sid vf (w # ws) =
     (fst (main_loop h sid vf ws), snd (loop_iteration w h sid vf) @ snd (main_loop h sid vf ws))"
  using assms
  by (cases "loop_iteration w h sid vf"; cases "main_loop h sid vf ws") simp

lemma main_loop_quit:
  assumes "input_line w = Inr s" "lower s = ''quit'' \<or> lower s = ''exit''"
  shows "main_loop h sid vf (w # ws) = (True, [Input (Inr s)])"
  using assms
  by (auto simp: loop_iteration_def prog_defs)

end
